theory Spec2Isabelle
  imports Complex_Main
begin

section \<open>Python values\<close>

text \<open>
  A Python \<open>str\<close> is a sequence of Unicode code points; the scripts use literals
  outside ASCII, so a string is a list of code points and \<open>ustr\<close> embeds an ASCII
  literal.
\<close>

type_synonym pystr = "nat list"

definition ustr :: "string \<Rightarrow> pystr" where
  "ustr s = map of_char s"

definition quoted :: "pystr \<Rightarrow> pystr" where
  "quoted s = [39] @ s @ [39]"

text \<open>The decimal text of a non-negative \<open>int\<close>, as an f-string renders it.\<close>

fun str_of_nat :: "nat \<Rightarrow> pystr" where
  "str_of_nat n = (if n < 10 then [48 + n] else str_of_nat (n div 10) @ [48 + n mod 10])"

declare str_of_nat.simps [simp del]

text \<open>
  Exceptions carry their class and their message \<open>str(e)\<close>. Only classes below
  \<open>Exception\<close> are modelled; \<open>ModuleNotFoundError\<close> is a subclass of
  \<open>ImportError\<close>, every \<open>OtherException\<close> is not.
\<close>

datatype exc_class = ImportError | ModuleNotFoundError | OtherException string

datatype pyexc = Raise exc_class pystr

fun isinstance_ImportError :: "pyexc \<Rightarrow> bool" where
  "isinstance_ImportError (Raise ImportError m) = True"
| "isinstance_ImportError (Raise ModuleNotFoundError m) = True"
| "isinstance_ImportError (Raise (OtherException c) m) = False"

fun exc_str :: "pyexc \<Rightarrow> pystr" where
  "exc_str (Raise c m) = m"

section \<open>The vendor library as far as the scripts call it\<close>

text \<open>
  Modelled from the spec: the document model of the vendor library python-pptx
  (document, slide, placeholder, text box, paragraph, rectangle, fill, line; section 3
  of the specification), which is not part of the repository. Objects the scripts hold
  in variables are references into the document: a slide is its index in the slide
  sequence, a shape a pair of slide and shape index, a paragraph a shape and a
  paragraph index.
\<close>

text \<open>
  Lengths are English Metric Units: \<open>int(x * 914400)\<close> for inches and
  \<open>int(x * 12700)\<close> for points, where \<open>int\<close> truncates towards zero. The
  arguments the scripts pass (integers, 1.5 and 7.5) and their products are exact as
  floats, so the arithmetic is that of the rationals.
\<close>

definition py_int :: "rat \<Rightarrow> int" where
  "py_int x = (if 0 \<le> x then \<lfloor>x\<rfloor> else \<lceil>x\<rceil>)"

definition Inches :: "rat \<Rightarrow> int" where
  "Inches x = py_int (x * 914400)"

definition Pt :: "rat \<Rightarrow> int" where
  "Pt x = py_int (x * 12700)"

type_synonym rgb = "nat \<times> nat \<times> nat"

definition RGBColor :: "nat \<Rightarrow> nat \<Rightarrow> nat \<Rightarrow> pyexc + rgb" where
  "RGBColor r g b =
     (if r < 256 \<and> g < 256 \<and> b < 256 then Inr (r, g, b)
      else Inl (Raise (OtherException ''ValueError'')
                 (ustr ''RGBColor() takes three integer values 0-255'')))"

record para =
  para_text :: pystr
  font_size :: "int option"
  font_bold :: "bool option"
  level :: nat

record text_frame =
  word_wrap :: "bool option"
  paragraphs :: "para list"

datatype fill_type = NoFill | Solid

record fill_format =
  fill_kind :: fill_type
  fore_color_rgb :: "rgb option"

record line_format =
  line_color_rgb :: "rgb option"
  line_width :: int

datatype MSO_SHAPE = RECTANGLE | OVAL

datatype shape_kind = Placeholder nat | TextBox | AutoShape MSO_SHAPE

record geometry =
  shape_left :: int
  shape_top :: int
  shape_width :: int
  shape_height :: int

record shape =
  kind :: shape_kind
  geom :: "geometry option"
  frame :: text_frame
  fill :: fill_format
  line :: line_format

record layout =
  layout_name :: string
  layout_placeholders :: "nat list"

record slide =
  slide_layout :: layout
  shapes :: "shape list"

record presentation =
  slide_width :: int
  slide_height :: int
  slides :: "slide list"

type_synonym slide_ref = nat
type_synonym shape_ref = "nat \<times> nat"
type_synonym para_ref = "shape_ref \<times> nat"

text \<open>
  \<open>Presentation()\<close> opens the library's default template: a 4:3 page, no slide, and
  eleven layouts, of which a new slide receives the title and body placeholders.
\<close>

definition Presentation :: presentation where
  "Presentation = \<lparr>slide_width = 9144000, slide_height = 6858000, slides = []\<rparr>"

definition slide_layouts :: "layout list" where
  "slide_layouts =
     [\<lparr>layout_name = ''Title Slide'', layout_placeholders = [0, 1]\<rparr>,
      \<lparr>layout_name = ''Title and Content'', layout_placeholders = [0, 1]\<rparr>,
      \<lparr>layout_name = ''Section Header'', layout_placeholders = [0, 1]\<rparr>,
      \<lparr>layout_name = ''Two Content'', layout_placeholders = [0, 1, 2]\<rparr>,
      \<lparr>layout_name = ''Comparison'', layout_placeholders = [0, 1, 2, 3, 4]\<rparr>,
      \<lparr>layout_name = ''Title Only'', layout_placeholders = [0]\<rparr>,
      \<lparr>layout_name = ''Blank'', layout_placeholders = []\<rparr>,
      \<lparr>layout_name = ''Content with Caption'', layout_placeholders = [0, 1, 2]\<rparr>,
      \<lparr>layout_name = ''Picture with Caption'', layout_placeholders = [0, 1, 2]\<rparr>,
      \<lparr>layout_name = ''Title and Vertical Text'', layout_placeholders = [0, 1]\<rparr>,
      \<lparr>layout_name = ''Vertical Title and Text'', layout_placeholders = [0, 1]\<rparr>]"

definition slide_layouts_getitem :: "nat \<Rightarrow> pyexc + layout" where
  "slide_layouts_getitem i =
     (if i < length slide_layouts then Inr (slide_layouts ! i)
      else Inl (Raise (OtherException ''IndexError'') (ustr ''slide layout index out of range'')))"

definition new_paragraph :: "pystr \<Rightarrow> para" where
  "new_paragraph t = \<lparr>para_text = t, font_size = None, font_bold = None, level = 0\<rparr>"

definition new_shape :: "shape_kind \<Rightarrow> geometry option \<Rightarrow> bool option \<Rightarrow> shape" where
  "new_shape k g wrap =
     \<lparr>kind = k, geom = g,
      frame = \<lparr>word_wrap = wrap, paragraphs = [new_paragraph []]\<rparr>,
      fill = \<lparr>fill_kind = NoFill, fore_color_rgb = None\<rparr>,
      line = \<lparr>line_color_rgb = None, line_width = 0\<rparr>\<rparr>"

definition add_slide :: "layout \<Rightarrow> presentation \<Rightarrow> presentation \<times> slide_ref" where
  "add_slide lay prs =
     (prs\<lparr>slides := slides prs @
        [\<lparr>slide_layout = lay,
          shapes = map (\<lambda>i. new_shape (Placeholder i) None None) (layout_placeholders lay)\<rparr>]\<rparr>,
      length (slides prs))"

definition update_slide :: "slide_ref \<Rightarrow> (slide \<Rightarrow> slide) \<Rightarrow> presentation \<Rightarrow> presentation" where
  "update_slide i f prs = prs\<lparr>slides := (slides prs)[i := f (slides prs ! i)]\<rparr>"

definition update_shape :: "shape_ref \<Rightarrow> (shape \<Rightarrow> shape) \<Rightarrow> presentation \<Rightarrow> presentation" where
  "update_shape r f prs =
     update_slide (fst r) (\<lambda>sl. sl\<lparr>shapes := (shapes sl)[snd r := f (shapes sl ! snd r)]\<rparr>) prs"

definition update_paragraph :: "para_ref \<Rightarrow> (para \<Rightarrow> para) \<Rightarrow> presentation \<Rightarrow> presentation" where
  "update_paragraph r f prs =
     update_shape (fst r)
       (\<lambda>sh. sh\<lparr>frame := (frame sh)\<lparr>paragraphs :=
          (paragraphs (frame sh))[snd r := f (paragraphs (frame sh) ! snd r)]\<rparr>\<rparr>) prs"

definition get_shape :: "presentation \<Rightarrow> shape_ref \<Rightarrow> shape" where
  "get_shape prs r = shapes (slides prs ! fst r) ! snd r"

fun find_placeholder :: "nat \<Rightarrow> shape list \<Rightarrow> nat \<Rightarrow> nat option" where
  "find_placeholder idx [] pos = None"
| "find_placeholder idx (sh # shs) pos =
     (if kind sh = Placeholder idx then Some pos else find_placeholder idx shs (Suc pos))"

text \<open>\<open>slide.shapes.title\<close> is \<open>None\<close> on a slide without a title placeholder.\<close>

definition shapes_title :: "presentation \<Rightarrow> slide_ref \<Rightarrow> shape_ref option" where
  "shapes_title prs sl =
     (case find_placeholder 0 (shapes (slides prs ! sl)) 0 of
        None \<Rightarrow> None
      | Some j \<Rightarrow> Some (sl, j))"

definition placeholders_getitem :: "presentation \<Rightarrow> slide_ref \<Rightarrow> nat \<Rightarrow> pyexc + shape_ref" where
  "placeholders_getitem prs sl idx =
     (case find_placeholder idx (shapes (slides prs ! sl)) 0 of
        None \<Rightarrow> Inl (Raise (OtherException ''KeyError'') (ustr ''no placeholder on this slide with idx == '' @ str_of_nat idx))
      | Some j \<Rightarrow> Inr (sl, j))"

text \<open>
  Assigning \<open>shape.text\<close> replaces the paragraphs of the shape's text frame by one
  paragraph for each line of the string; reading it joins them again.
\<close>

fun split_lines :: "pystr \<Rightarrow> pystr list" where
  "split_lines [] = [[]]"
| "split_lines (c # cs) =
     (if c = 10 then [] # split_lines cs
      else (case split_lines cs of [] \<Rightarrow> [[c]] | l # ls \<Rightarrow> (c # l) # ls))"

fun join_lines :: "pystr list \<Rightarrow> pystr" where
  "join_lines [] = []"
| "join_lines [l] = l"
| "join_lines (l # m # ls) = l @ [10] @ join_lines (m # ls)"

definition set_shape_text :: "shape_ref option \<Rightarrow> pystr \<Rightarrow> presentation \<Rightarrow> pyexc + presentation" where
  "set_shape_text r t prs =
     (case r of
        None \<Rightarrow> Inl (Raise (OtherException ''AttributeError'')
                  (quoted (ustr ''NoneType'') @ ustr '' object has no attribute '' @ quoted (ustr ''text'')))
      | Some ref \<Rightarrow>
          Inr (update_shape ref
                 (\<lambda>sh. sh\<lparr>frame := (frame sh)\<lparr>paragraphs := map new_paragraph (split_lines t)\<rparr>\<rparr>) prs))"

definition shape_text :: "presentation \<Rightarrow> shape_ref \<Rightarrow> pystr" where
  "shape_text prs r = join_lines (map para_text (paragraphs (frame (get_shape prs r))))"

definition add_textbox :: "slide_ref \<Rightarrow> int \<Rightarrow> int \<Rightarrow> int \<Rightarrow> int \<Rightarrow> presentation \<Rightarrow> presentation \<times> shape_ref" where
  "add_textbox sl l t w h prs =
     (update_slide sl
        (\<lambda>s. s\<lparr>shapes := shapes s @
           [new_shape TextBox
              (Some \<lparr>shape_left = l, shape_top = t, shape_width = w, shape_height = h\<rparr>)
              (Some False)]\<rparr>) prs,
      (sl, length (shapes (slides prs ! sl))))"

definition add_shape :: "slide_ref \<Rightarrow> MSO_SHAPE \<Rightarrow> int \<Rightarrow> int \<Rightarrow> int \<Rightarrow> int \<Rightarrow> presentation \<Rightarrow> presentation \<times> shape_ref" where
  "add_shape sl k l t w h prs =
     (update_slide sl
        (\<lambda>s. s\<lparr>shapes := shapes s @
           [new_shape (AutoShape k)
              (Some \<lparr>shape_left = l, shape_top = t, shape_width = w, shape_height = h\<rparr>)
              None]\<rparr>) prs,
      (sl, length (shapes (slides prs ! sl))))"

definition set_word_wrap :: "shape_ref \<Rightarrow> bool \<Rightarrow> presentation \<Rightarrow> presentation" where
  "set_word_wrap r b prs = update_shape r (\<lambda>sh. sh\<lparr>frame := (frame sh)\<lparr>word_wrap := Some b\<rparr>\<rparr>) prs"

definition paragraphs_getitem :: "presentation \<Rightarrow> shape_ref \<Rightarrow> nat \<Rightarrow> pyexc + para_ref" where
  "paragraphs_getitem prs r i =
     (if i < length (paragraphs (frame (get_shape prs r))) then Inr (r, i)
      else Inl (Raise (OtherException ''IndexError'') (ustr ''tuple index out of range'')))"

definition add_paragraph :: "shape_ref \<Rightarrow> presentation \<Rightarrow> presentation \<times> para_ref" where
  "add_paragraph r prs =
     (update_shape r
        (\<lambda>sh. sh\<lparr>frame := (frame sh)\<lparr>paragraphs := paragraphs (frame sh) @ [new_paragraph []]\<rparr>\<rparr>) prs,
      (r, length (paragraphs (frame (get_shape prs r)))))"

definition set_para_text :: "para_ref \<Rightarrow> pystr \<Rightarrow> presentation \<Rightarrow> presentation" where
  "set_para_text r t prs = update_paragraph r (\<lambda>p. p\<lparr>para_text := t\<rparr>) prs"

definition set_font_size :: "para_ref \<Rightarrow> int \<Rightarrow> presentation \<Rightarrow> presentation" where
  "set_font_size r n prs = update_paragraph r (\<lambda>p. p\<lparr>font_size := Some n\<rparr>) prs"

definition set_font_bold :: "para_ref \<Rightarrow> bool \<Rightarrow> presentation \<Rightarrow> presentation" where
  "set_font_bold r b prs = update_paragraph r (\<lambda>p. p\<lparr>font_bold := Some b\<rparr>) prs"

definition set_level :: "para_ref \<Rightarrow> nat \<Rightarrow> presentation \<Rightarrow> pyexc + presentation" where
  "set_level r n prs =
     (if n \<le> 8 then Inr (update_paragraph r (\<lambda>p. p\<lparr>level := n\<rparr>) prs)
      else Inl (Raise (OtherException ''ValueError'') (ustr ''indent level must be in range 0..8'')))"

definition fill_solid :: "shape_ref \<Rightarrow> presentation \<Rightarrow> presentation" where
  "fill_solid r prs = update_shape r (\<lambda>sh. sh\<lparr>fill := \<lparr>fill_kind = Solid, fore_color_rgb = None\<rparr>\<rparr>) prs"

text \<open>The foreground colour of a fill exists only once the fill is solid.\<close>

definition set_fill_fore_color_rgb :: "shape_ref \<Rightarrow> rgb \<Rightarrow> presentation \<Rightarrow> pyexc + presentation" where
  "set_fill_fore_color_rgb r c prs =
     (if fill_kind (fill (get_shape prs r)) = Solid
      then Inr (update_shape r (\<lambda>sh. sh\<lparr>fill := (fill sh)\<lparr>fore_color_rgb := Some c\<rparr>\<rparr>) prs)
      else Inl (Raise (OtherException ''TypeError'') (ustr ''fill type has no foreground color'')))"

definition set_line_color_rgb :: "shape_ref \<Rightarrow> rgb \<Rightarrow> presentation \<Rightarrow> presentation" where
  "set_line_color_rgb r c prs = update_shape r (\<lambda>sh. sh\<lparr>line := (line sh)\<lparr>line_color_rgb := Some c\<rparr>\<rparr>) prs"

definition set_line_width :: "shape_ref \<Rightarrow> int \<Rightarrow> presentation \<Rightarrow> presentation" where
  "set_line_width r w prs = update_shape r (\<lambda>sh. sh\<lparr>line := (line sh)\<lparr>line_width := w\<rparr>\<rparr>) prs"

text \<open>
  A saved file holds the document description; \<open>Presentation(path)\<close> reads it back.
  The bytes of the package are the library's business, and so is what a save that
  raises leaves on the disk: the model keeps the files as they were.
\<close>

definition open_presentation :: "(pystr \<rightharpoonup> presentation) \<Rightarrow> pystr \<Rightarrow> pyexc + presentation" where
  "open_presentation fs path =
     (case fs path of
        None \<Rightarrow> Inl (Raise (OtherException ''PackageNotFoundError'') (ustr ''Package not found at '' @ quoted path))
      | Some d \<Rightarrow> Inr d)"

section \<open>The Python process\<close>

text \<open>
  What a run of a script depends on: whether the vendor library can be imported, which
  vendor calls raise (by source line: a full disk, a missing directory, a rejected
  value), the encoding of the console, the command line, the environment variables and
  the files present.
\<close>

record env =
  pptx_installed :: bool
  fault :: "nat \<Rightarrow> pyexc option"
  console_encoding :: string
  argv :: "pystr list"
  environ :: "(pystr \<times> pystr) list"
  disk :: "pystr \<rightharpoonup> presentation"

text \<open>
  The variables of the two scripts. A variable that may hold \<open>None\<close> is an optional
  reference; before its first assignment a variable holds the value below, which no
  statement reads.
\<close>

record frame =
  v_prs :: presentation
  v_title_slide :: slide_ref
  v_title :: "shape_ref option"
  v_subtitle :: "shape_ref option"
  v_content_slide :: slide_ref
  v_title_shape :: "shape_ref option"
  v_left :: int
  v_top :: int
  v_width :: int
  v_height :: int
  v_textbox :: shape_ref
  v_text_frame :: shape_ref
  v_p :: para_ref
  v_shape :: shape_ref
  v_textbox2 :: shape_ref
  v_text_frame2 :: shape_ref
  v_p2 :: para_ref
  v_output_path :: pystr
  v_slide_layout :: layout
  v_slide :: slide_ref
  v_bullet_slide_layout :: layout
  v_shapes :: slide_ref

definition unbound :: frame where
  "unbound =
     \<lparr>v_prs = \<lparr>slide_width = 0, slide_height = 0, slides = []\<rparr>,
      v_title_slide = 0, v_title = None, v_subtitle = None, v_content_slide = 0,
      v_title_shape = None, v_left = 0, v_top = 0, v_width = 0, v_height = 0,
      v_textbox = (0, 0), v_text_frame = (0, 0), v_p = ((0, 0), 0), v_shape = (0, 0),
      v_textbox2 = (0, 0), v_text_frame2 = (0, 0), v_p2 = ((0, 0), 0), v_output_path = [],
      v_slide_layout = \<lparr>layout_name = [], layout_placeholders = []\<rparr>, v_slide = 0,
      v_bullet_slide_layout = \<lparr>layout_name = [], layout_placeholders = []\<rparr>, v_shapes = 0\<rparr>"

text \<open>
  Standard output keeps every printed line with the encoding of the text wrapper that
  emitted it; standard error keeps the exceptions whose traceback was written.
\<close>

record pystate =
  stdout_encoding :: string
  stdout :: "(string \<times> pystr) list"
  stderr :: "pyexc list"
  files :: "pystr \<rightharpoonup> presentation"
  locals :: frame

definition start :: "env \<Rightarrow> pystate" where
  "start e =
     \<lparr>stdout_encoding = console_encoding e, stdout = [], stderr = [], files = disk e,
      locals = unbound\<rparr>"

definition print :: "pystr \<Rightarrow> pystate \<Rightarrow> pystate" where
  "print t s = s\<lparr>stdout := stdout s @ [(stdout_encoding s, t)]\<rparr>"

definition print_exc :: "pyexc \<Rightarrow> pystate \<Rightarrow> pystate" where
  "print_exc e s = s\<lparr>stderr := stderr s @ [e]\<rparr>"

text \<open>
  Statements, each with its source line. An import of the vendor package raises
  \<open>ModuleNotFoundError\<close> unless the package is installed; a vendor call raises what the
  environment says for its line, or what the call itself raises; an assignment of a
  literal, \<open>print\<close> and the replacement of \<open>sys.stdout\<close> are taken not to raise.
\<close>

datatype stmt =
    Import nat string
  | Nop nat
  | Rewrap nat string
  | Vendor nat "frame \<Rightarrow> pyexc + frame"
  | Assign nat "frame \<Rightarrow> frame"
  | Save nat "frame \<Rightarrow> pystr \<times> presentation"
  | Print nat "frame \<Rightarrow> pystr"

definition bind_exc :: "pyexc + 'a \<Rightarrow> ('a \<Rightarrow> pyexc + 'b) \<Rightarrow> pyexc + 'b" where
  "bind_exc m f = (case m of Inl e \<Rightarrow> Inl e | Inr x \<Rightarrow> f x)"

fun exec :: "bool \<Rightarrow> (nat \<Rightarrow> pyexc option) \<Rightarrow> stmt list \<Rightarrow> pystate \<Rightarrow> pyexc option \<times> pystate" where
  "exec inst flt [] s = (None, s)"
| "exec inst flt (Import n pkg # rest) s =
     (if inst then exec inst flt rest s
      else (Some (Raise ModuleNotFoundError (ustr ''No module named '' @ quoted (ustr pkg))), s))"
| "exec inst flt (Nop n # rest) s = exec inst flt rest s"
| "exec inst flt (Rewrap n enc # rest) s = exec inst flt rest (s\<lparr>stdout_encoding := enc\<rparr>)"
| "exec inst flt (Vendor n f # rest) s =
     (case flt n of
        Some e \<Rightarrow> (Some e, s)
      | None \<Rightarrow>
          (case f (locals s) of
             Inl e \<Rightarrow> (Some e, s)
           | Inr l \<Rightarrow> exec inst flt rest (s\<lparr>locals := l\<rparr>)))"
| "exec inst flt (Assign n f # rest) s = exec inst flt rest (s\<lparr>locals := f (locals s)\<rparr>)"
| "exec inst flt (Save n f # rest) s =
     (case flt n of
        Some e \<Rightarrow> (Some e, s)
      | None \<Rightarrow>
          exec inst flt rest (s\<lparr>files := (files s)(fst (f (locals s)) \<mapsto> snd (f (locals s)))\<rparr>))"
| "exec inst flt (Print n f # rest) s = exec inst flt rest (print (f (locals s)) s)"

text \<open>
  An exception that reaches the top of the module ends the process with the
  interpreter's traceback on standard error and exit status 1; a module that runs to
  its end exits with status 0.
\<close>

definition uncaught :: "pyexc \<Rightarrow> pystate \<Rightarrow> nat \<times> pystate" where
  "uncaught e s = (1, print_exc e s)"

section \<open>scripts/create-test-pptx.py\<close>

definition create_test_pptx_prelude :: "stmt list" where
  "create_test_pptx_prelude =
     [Import 6 ''pptx'', Import 7 ''pptx'', Import 8 ''pptx'', Import 9 ''pptx'',
      Nop 10, Nop 11, Rewrap 14 ''utf-8'', Nop 16]"

text \<open>Lines 19 to 83 of \<open>create_test_pptx\<close>: build the document and save it.\<close>

definition create_test_pptx_build :: "stmt list" where
  "create_test_pptx_build =
     [Vendor 20 (\<lambda>l. Inr (l\<lparr>v_prs := Presentation\<rparr>)),
      Vendor 21 (\<lambda>l. Inr (l\<lparr>v_prs := (v_prs l)\<lparr>slide_width := Inches 10\<rparr>\<rparr>)),
      Vendor 22 (\<lambda>l. Inr (l\<lparr>v_prs := (v_prs l)\<lparr>slide_height := Inches 7.5\<rparr>\<rparr>)),
      Vendor 25 (\<lambda>l. bind_exc (slide_layouts_getitem 0) (\<lambda>lay.
         case add_slide lay (v_prs l) of (d, r) \<Rightarrow> Inr (l\<lparr>v_prs := d, v_title_slide := r\<rparr>))),
      Vendor 26 (\<lambda>l. Inr (l\<lparr>v_title := shapes_title (v_prs l) (v_title_slide l)\<rparr>)),
      Vendor 27 (\<lambda>l. bind_exc (placeholders_getitem (v_prs l) (v_title_slide l) 1) (\<lambda>r.
         Inr (l\<lparr>v_subtitle := Some r\<rparr>))),
      Vendor 29 (\<lambda>l. bind_exc (set_shape_text (v_title l) (ustr ''PPTX to JSON Conversion Test'') (v_prs l))
         (\<lambda>d. Inr (l\<lparr>v_prs := d\<rparr>))),
      Vendor 30 (\<lambda>l. bind_exc (set_shape_text (v_subtitle l) (ustr ''End-to-End Integration Test'') (v_prs l))
         (\<lambda>d. Inr (l\<lparr>v_prs := d\<rparr>))),
      Vendor 33 (\<lambda>l. bind_exc (slide_layouts_getitem 5) (\<lambda>lay.
         case add_slide lay (v_prs l) of (d, r) \<Rightarrow> Inr (l\<lparr>v_prs := d, v_content_slide := r\<rparr>))),
      Vendor 36 (\<lambda>l. Inr (l\<lparr>v_title_shape := shapes_title (v_prs l) (v_content_slide l)\<rparr>)),
      Vendor 37 (\<lambda>l. bind_exc (set_shape_text (v_title_shape l) (ustr ''Test Elements'') (v_prs l))
         (\<lambda>d. Inr (l\<lparr>v_prs := d\<rparr>))),
      Vendor 40 (\<lambda>l. Inr (l\<lparr>v_left := Inches 1\<rparr>)),
      Vendor 41 (\<lambda>l. Inr (l\<lparr>v_top := Inches 2\<rparr>)),
      Vendor 42 (\<lambda>l. Inr (l\<lparr>v_width := Inches 3\<rparr>)),
      Vendor 43 (\<lambda>l. Inr (l\<lparr>v_height := Inches 1\<rparr>)),
      Vendor 44 (\<lambda>l.
         case add_textbox (v_content_slide l) (v_left l) (v_top l) (v_width l) (v_height l) (v_prs l) of
           (d, r) \<Rightarrow> Inr (l\<lparr>v_prs := d, v_textbox := r\<rparr>)),
      Vendor 45 (\<lambda>l. Inr (l\<lparr>v_text_frame := v_textbox l\<rparr>)),
      Vendor 46 (\<lambda>l. Inr (l\<lparr>v_prs := set_word_wrap (v_text_frame l) True (v_prs l)\<rparr>)),
      Vendor 48 (\<lambda>l. bind_exc (paragraphs_getitem (v_prs l) (v_text_frame l) 0) (\<lambda>r.
         Inr (l\<lparr>v_p := r\<rparr>))),
      Vendor 49 (\<lambda>l. Inr (l\<lparr>v_prs := set_para_text (v_p l) (ustr ''This is a test text box'') (v_prs l)\<rparr>)),
      Vendor 50 (\<lambda>l. Inr (l\<lparr>v_prs := set_font_size (v_p l) (Pt 18) (v_prs l)\<rparr>)),
      Vendor 53 (\<lambda>l. Inr (l\<lparr>v_left := Inches 5\<rparr>)),
      Vendor 54 (\<lambda>l. Inr (l\<lparr>v_top := Inches 2\<rparr>)),
      Vendor 55 (\<lambda>l. Inr (l\<lparr>v_width := Inches 2\<rparr>)),
      Vendor 56 (\<lambda>l. Inr (l\<lparr>v_height := Inches 1.5\<rparr>)),
      Vendor 57 (\<lambda>l.
         case add_shape (v_content_slide l) RECTANGLE (v_left l) (v_top l) (v_width l) (v_height l) (v_prs l) of
           (d, r) \<Rightarrow> Inr (l\<lparr>v_prs := d, v_shape := r\<rparr>)),
      Vendor 64 (\<lambda>l. Inr (l\<lparr>v_prs := fill_solid (v_shape l) (v_prs l)\<rparr>)),
      Vendor 65 (\<lambda>l. bind_exc (RGBColor 0x70 0xC0 0x00) (\<lambda>c.
         bind_exc (set_fill_fore_color_rgb (v_shape l) c (v_prs l)) (\<lambda>d. Inr (l\<lparr>v_prs := d\<rparr>)))),
      Vendor 66 (\<lambda>l. bind_exc (RGBColor 0 0 0) (\<lambda>c.
         Inr (l\<lparr>v_prs := set_line_color_rgb (v_shape l) c (v_prs l)\<rparr>))),
      Vendor 67 (\<lambda>l. Inr (l\<lparr>v_prs := set_line_width (v_shape l) (Pt 1) (v_prs l)\<rparr>)),
      Vendor 70 (\<lambda>l. Inr (l\<lparr>v_left := Inches 1\<rparr>)),
      Vendor 71 (\<lambda>l. Inr (l\<lparr>v_top := Inches 4\<rparr>)),
      Vendor 72 (\<lambda>l. Inr (l\<lparr>v_width := Inches 6\<rparr>)),
      Vendor 73 (\<lambda>l. Inr (l\<lparr>v_height := Inches 1\<rparr>)),
      Vendor 74 (\<lambda>l.
         case add_textbox (v_content_slide l) (v_left l) (v_top l) (v_width l) (v_height l) (v_prs l) of
           (d, r) \<Rightarrow> Inr (l\<lparr>v_prs := d, v_textbox2 := r\<rparr>)),
      Vendor 75 (\<lambda>l. Inr (l\<lparr>v_text_frame2 := v_textbox2 l\<rparr>)),
      Vendor 76 (\<lambda>l. bind_exc (paragraphs_getitem (v_prs l) (v_text_frame2 l) 0) (\<lambda>r.
         Inr (l\<lparr>v_p2 := r\<rparr>))),
      Vendor 77 (\<lambda>l. Inr (l\<lparr>v_prs := set_para_text (v_p2 l) (ustr ''Element 2: Another text box'') (v_prs l)\<rparr>)),
      Vendor 78 (\<lambda>l. Inr (l\<lparr>v_prs := set_font_size (v_p2 l) (Pt 14) (v_prs l)\<rparr>)),
      Vendor 79 (\<lambda>l. Inr (l\<lparr>v_prs := set_font_bold (v_p2 l) True (v_prs l)\<rparr>)),
      Assign 82 (\<lambda>l. l\<lparr>v_output_path := ustr ''tests/fixtures/simple.pptx''\<rparr>),
      Save 83 (\<lambda>l. (v_output_path l, v_prs l))]"

text \<open>Lines 85 to 87: the status lines.\<close>

definition create_test_pptx_report :: "stmt list" where
  "create_test_pptx_report =
     [Print 85 (\<lambda>l. ustr ''[OK] Successfully created test PPTX file: '' @ v_output_path l),
      Print 86 (\<lambda>l. ustr ''   Slide count: '' @ str_of_nat (length (slides (v_prs l)))),
      Print 87 (\<lambda>l. ustr ''   File size: ~'' @ str_of_nat (length (slides (v_prs l)))
                       @ ustr '' slides with basic elements'')]"

definition create_test_pptx_body :: "stmt list" where
  "create_test_pptx_body = create_test_pptx_build @ create_test_pptx_report"

text \<open>The call \<open>create_test_pptx()\<close>: the body, then \<open>return output_path\<close>.\<close>

definition create_test_pptx :: "env \<Rightarrow> pystate \<Rightarrow> (pyexc + pystr) \<times> pystate" where
  "create_test_pptx e s =
     (case exec (pptx_installed e) (fault e) create_test_pptx_body s of
        (Some x, s') \<Rightarrow> (Inl x, s')
      | (None, s') \<Rightarrow> (Inr (v_output_path (locals s')), s'))"

text \<open>Lines 91 to 100: the call under \<open>try\<close>, with its two handlers in their order.\<close>

definition main_block :: "env \<Rightarrow> pystate \<Rightarrow> pystate" where
  "main_block e s =
     (case create_test_pptx e s of
        (Inr path, s') \<Rightarrow> s'
      | (Inl x, s') \<Rightarrow>
          if isinstance_ImportError x
          then print (ustr ''   Run: pip install python-pptx'')
                 (print (ustr ''[ERROR] Need to install python-pptx'') s')
          else print_exc x (print (ustr ''[ERROR] Failed to create file: '' @ exc_str x) s'))"

text \<open>The module up to line 16, where the main block is reached.\<close>

definition at_main :: "env \<Rightarrow> pyexc option \<times> pystate" where
  "at_main e = exec (pptx_installed e) (fault e) create_test_pptx_prelude (start e)"

definition run_create_test_pptx :: "env \<Rightarrow> nat \<times> pystate" where
  "run_create_test_pptx e =
     (case at_main e of
        (Some x, s) \<Rightarrow> uncaught x s
      | (None, s) \<Rightarrow> (0, main_block e s))"

text \<open>
  What \<open>create_test_pptx()\<close> returned in a run, if the run reached the call and the
  call returned. A run of this script is successful when it did.
\<close>

definition create_test_pptx_returned :: "env \<Rightarrow> pystr option" where
  "create_test_pptx_returned e =
     (case at_main e of
        (Some x, s) \<Rightarrow> None
      | (None, s) \<Rightarrow>
          (case create_test_pptx e s of (Inl x, s') \<Rightarrow> None | (Inr path, s') \<Rightarrow> Some path))"

definition create_test_pptx_succeeds :: "env \<Rightarrow> bool" where
  "create_test_pptx_succeeds e = (create_test_pptx_returned e \<noteq> None)"

section \<open>tests/fixtures/create_simple_pptx.py\<close>

text \<open>
  The literals of this script are Chinese; they are given by their code points:
  the title of the presentation (line 19), its subtitle (line 23), the title of the
  content slide (line 32) and the three lines of the text box (lines 46, 50 and 55).
\<close>

definition title_literal :: pystr where
  "title_literal = [0x6D4B, 0x8BD5, 0x6F14, 0x793A, 0x6587, 0x7A3F]"

definition subtitle_literal :: pystr where
  "subtitle_literal =
     [0x8FD9, 0x662F, 0x4E00, 0x4E2A, 0x7B80, 0x5355, 0x7684, 0x6D4B, 0x8BD5, 0x20, 0x50, 0x50, 0x54, 0x58]"

definition content_title_literal :: pystr where
  "content_title_literal = [0x4E3B, 0x8981, 0x5185, 0x5BB9]"

definition line1_literal :: pystr where
  "line1_literal = [0x8FD9, 0x662F, 0x7B2C, 0x4E00, 0x884C, 0x6587, 0x672C]"

definition line2_literal :: pystr where
  "line2_literal = [0x8FD9, 0x662F, 0x7B2C, 0x4E8C, 0x884C, 0x6587, 0x672C]"

definition line3_literal :: pystr where
  "line3_literal = [0x8FD9, 0x662F, 0x7B2C, 0x4E09, 0x884C, 0x6587, 0x672C]"

definition create_simple_pptx_imports :: "stmt list" where
  "create_simple_pptx_imports = [Import 5 ''pptx'', Import 6 ''pptx'']"

text \<open>Lines 8 to 59: build the document and save it.\<close>

definition create_simple_pptx_build :: "stmt list" where
  "create_simple_pptx_build =
     [Vendor 9 (\<lambda>l. Inr (l\<lparr>v_prs := Presentation\<rparr>)),
      Vendor 10 (\<lambda>l. Inr (l\<lparr>v_prs := (v_prs l)\<lparr>slide_width := Inches 10\<rparr>\<rparr>)),
      Vendor 11 (\<lambda>l. Inr (l\<lparr>v_prs := (v_prs l)\<lparr>slide_height := Inches 7.5\<rparr>\<rparr>)),
      Vendor 14 (\<lambda>l. bind_exc (slide_layouts_getitem 0) (\<lambda>lay. Inr (l\<lparr>v_slide_layout := lay\<rparr>))),
      Vendor 15 (\<lambda>l.
         case add_slide (v_slide_layout l) (v_prs l) of (d, r) \<Rightarrow> Inr (l\<lparr>v_prs := d, v_slide := r\<rparr>)),
      Vendor 18 (\<lambda>l. Inr (l\<lparr>v_title := shapes_title (v_prs l) (v_slide l)\<rparr>)),
      Vendor 19 (\<lambda>l. bind_exc (set_shape_text (v_title l) title_literal (v_prs l))
         (\<lambda>d. Inr (l\<lparr>v_prs := d\<rparr>))),
      Vendor 22 (\<lambda>l. bind_exc (placeholders_getitem (v_prs l) (v_slide l) 1) (\<lambda>r.
         Inr (l\<lparr>v_subtitle := Some r\<rparr>))),
      Vendor 23 (\<lambda>l. bind_exc (set_shape_text (v_subtitle l) subtitle_literal (v_prs l))
         (\<lambda>d. Inr (l\<lparr>v_prs := d\<rparr>))),
      Vendor 26 (\<lambda>l. bind_exc (slide_layouts_getitem 1) (\<lambda>lay.
         Inr (l\<lparr>v_bullet_slide_layout := lay\<rparr>))),
      Vendor 27 (\<lambda>l.
         case add_slide (v_bullet_slide_layout l) (v_prs l) of
           (d, r) \<Rightarrow> Inr (l\<lparr>v_prs := d, v_slide := r\<rparr>)),
      Vendor 30 (\<lambda>l. Inr (l\<lparr>v_shapes := v_slide l\<rparr>)),
      Vendor 31 (\<lambda>l. Inr (l\<lparr>v_title_shape := shapes_title (v_prs l) (v_shapes l)\<rparr>)),
      Vendor 32 (\<lambda>l. bind_exc (set_shape_text (v_title_shape l) content_title_literal (v_prs l))
         (\<lambda>d. Inr (l\<lparr>v_prs := d\<rparr>))),
      Vendor 35 (\<lambda>l. Inr (l\<lparr>v_left := Inches 1\<rparr>)),
      Vendor 36 (\<lambda>l. Inr (l\<lparr>v_top := Inches 2\<rparr>)),
      Vendor 37 (\<lambda>l. Inr (l\<lparr>v_width := Inches 8\<rparr>)),
      Vendor 38 (\<lambda>l. Inr (l\<lparr>v_height := Inches 4\<rparr>)),
      Vendor 40 (\<lambda>l.
         case add_textbox (v_shapes l) (v_left l) (v_top l) (v_width l) (v_height l) (v_prs l) of
           (d, r) \<Rightarrow> Inr (l\<lparr>v_prs := d, v_textbox := r\<rparr>)),
      Vendor 41 (\<lambda>l. Inr (l\<lparr>v_text_frame := v_textbox l\<rparr>)),
      Vendor 42 (\<lambda>l. Inr (l\<lparr>v_prs := set_word_wrap (v_text_frame l) True (v_prs l)\<rparr>)),
      Vendor 45 (\<lambda>l. bind_exc (paragraphs_getitem (v_prs l) (v_text_frame l) 0) (\<lambda>r.
         Inr (l\<lparr>v_p := r\<rparr>))),
      Vendor 46 (\<lambda>l. Inr (l\<lparr>v_prs := set_para_text (v_p l) line1_literal (v_prs l)\<rparr>)),
      Vendor 47 (\<lambda>l. Inr (l\<lparr>v_prs := set_font_size (v_p l) (Pt 18) (v_prs l)\<rparr>)),
      Vendor 49 (\<lambda>l.
         case add_paragraph (v_text_frame l) (v_prs l) of (d, r) \<Rightarrow> Inr (l\<lparr>v_prs := d, v_p := r\<rparr>)),
      Vendor 50 (\<lambda>l. Inr (l\<lparr>v_prs := set_para_text (v_p l) line2_literal (v_prs l)\<rparr>)),
      Vendor 51 (\<lambda>l. Inr (l\<lparr>v_prs := set_font_size (v_p l) (Pt 18) (v_prs l)\<rparr>)),
      Vendor 52 (\<lambda>l. bind_exc (set_level (v_p l) 1 (v_prs l)) (\<lambda>d. Inr (l\<lparr>v_prs := d\<rparr>))),
      Vendor 54 (\<lambda>l.
         case add_paragraph (v_text_frame l) (v_prs l) of (d, r) \<Rightarrow> Inr (l\<lparr>v_prs := d, v_p := r\<rparr>)),
      Vendor 55 (\<lambda>l. Inr (l\<lparr>v_prs := set_para_text (v_p l) line3_literal (v_prs l)\<rparr>)),
      Vendor 56 (\<lambda>l. Inr (l\<lparr>v_prs := set_font_size (v_p l) (Pt 18) (v_prs l)\<rparr>)),
      Save 59 (\<lambda>l. (ustr ''simple.pptx'', v_prs l))]"

definition create_simple_pptx_report :: "stmt list" where
  "create_simple_pptx_report = [Print 60 (\<lambda>l. ustr ''simple.pptx created successfully'')]"

definition create_simple_pptx_module :: "stmt list" where
  "create_simple_pptx_module =
     create_simple_pptx_imports @ create_simple_pptx_build @ create_simple_pptx_report"

definition run_create_simple_pptx :: "env \<Rightarrow> nat \<times> pystate" where
  "run_create_simple_pptx e =
     (case exec (pptx_installed e) (fault e) create_simple_pptx_module (start e) of
        (Some x, s) \<Rightarrow> uncaught x s
      | (None, s) \<Rightarrow> (0, s))"

text \<open>This script has no handler: a run is successful when its exit status is 0.\<close>

definition create_simple_pptx_succeeds :: "env \<Rightarrow> bool" where
  "create_simple_pptx_succeeds e = (fst (run_create_simple_pptx e) = 0)"

text \<open>The exception that left \<open>create_test_pptx()\<close> in a run, if one did.\<close>

definition create_test_pptx_raised :: "env \<Rightarrow> pyexc option" where
  "create_test_pptx_raised e =
     (case at_main e of
        (Some x, s) \<Rightarrow> None
      | (None, s) \<Rightarrow>
          (case create_test_pptx e s of (Inl x, s') \<Rightarrow> Some x | (Inr path, s') \<Rightarrow> None))"

definition create_simple_pptx_raised :: "env \<Rightarrow> pyexc option" where
  "create_simple_pptx_raised e =
     fst (exec (pptx_installed e) (fault e) create_simple_pptx_module (start e))"

text \<open>The in-memory document a run leaves in \<open>prs\<close>.\<close>

definition create_test_pptx_document :: "env \<Rightarrow> presentation" where
  "create_test_pptx_document e = v_prs (locals (snd (run_create_test_pptx e)))"

definition create_simple_pptx_document :: "env \<Rightarrow> presentation" where
  "create_simple_pptx_document e = v_prs (locals (snd (run_create_simple_pptx e)))"

section \<open>Vocabulary of the properties\<close>

text \<open>A printed line names a text when the text occurs in it.\<close>

fun contains :: "pystr \<Rightarrow> pystr \<Rightarrow> bool" where
  "contains t [] = (t = [])"
| "contains t (c # cs) = (take (length t) (c # cs) = t \<or> contains t cs)"

definition names_text :: "pystr \<Rightarrow> (string \<times> pystr) list \<Rightarrow> bool" where
  "names_text t out = list_ex (\<lambda>x. contains t (snd x)) out"

text \<open>Statements that write nothing to standard output or standard error.\<close>

fun quiet :: "stmt \<Rightarrow> bool" where
  "quiet (Print n f) = False"
| "quiet (Rewrap n enc) = False"
| "quiet x = True"

text \<open>The documents the two scripts describe, written out.\<close>

definition placeholder_shape :: "nat \<Rightarrow> pystr \<Rightarrow> shape" where
  "placeholder_shape idx t =
     \<lparr>kind = Placeholder idx, geom = None,
      frame = \<lparr>word_wrap = None,
               paragraphs = [\<lparr>para_text = t, font_size = None, font_bold = None, level = 0\<rparr>]\<rparr>,
      fill = \<lparr>fill_kind = NoFill, fore_color_rgb = None\<rparr>,
      line = \<lparr>line_color_rgb = None, line_width = 0\<rparr>\<rparr>"

definition test_document :: presentation where
  "test_document =
     \<lparr>slide_width = 9144000, slide_height = 6858000,
      slides =
        [\<lparr>slide_layout = \<lparr>layout_name = ''Title Slide'', layout_placeholders = [0, 1]\<rparr>,
          shapes =
            [placeholder_shape 0 (ustr ''PPTX to JSON Conversion Test''),
             placeholder_shape 1 (ustr ''End-to-End Integration Test'')]\<rparr>,
         \<lparr>slide_layout = \<lparr>layout_name = ''Title Only'', layout_placeholders = [0]\<rparr>,
          shapes =
            [placeholder_shape 0 (ustr ''Test Elements''),
             \<lparr>kind = TextBox,
              geom = Some \<lparr>shape_left = 914400, shape_top = 1828800,
                           shape_width = 2743200, shape_height = 914400\<rparr>,
              frame = \<lparr>word_wrap = Some True,
                       paragraphs =
                         [\<lparr>para_text = ustr ''This is a test text box'', font_size = Some 228600,
                           font_bold = None, level = 0\<rparr>]\<rparr>,
              fill = \<lparr>fill_kind = NoFill, fore_color_rgb = None\<rparr>,
              line = \<lparr>line_color_rgb = None, line_width = 0\<rparr>\<rparr>,
             \<lparr>kind = AutoShape RECTANGLE,
              geom = Some \<lparr>shape_left = 4572000, shape_top = 1828800,
                           shape_width = 1828800, shape_height = 1371600\<rparr>,
              frame = \<lparr>word_wrap = None,
                       paragraphs =
                         [\<lparr>para_text = [], font_size = None, font_bold = None, level = 0\<rparr>]\<rparr>,
              fill = \<lparr>fill_kind = Solid, fore_color_rgb = Some (0x70, 0xC0, 0x00)\<rparr>,
              line = \<lparr>line_color_rgb = Some (0, 0, 0), line_width = 12700\<rparr>\<rparr>,
             \<lparr>kind = TextBox,
              geom = Some \<lparr>shape_left = 914400, shape_top = 3657600,
                           shape_width = 5486400, shape_height = 914400\<rparr>,
              frame = \<lparr>word_wrap = Some False,
                       paragraphs =
                         [\<lparr>para_text = ustr ''Element 2: Another text box'',
                           font_size = Some 177800, font_bold = Some True, level = 0\<rparr>]\<rparr>,
              fill = \<lparr>fill_kind = NoFill, fore_color_rgb = None\<rparr>,
              line = \<lparr>line_color_rgb = None, line_width = 0\<rparr>\<rparr>]\<rparr>]\<rparr>"

definition test_frame :: frame where
  "test_frame =
     unbound\<lparr>v_prs := test_document, v_title_slide := 0, v_title := Some (0, 0),
       v_subtitle := Some (0, 1), v_content_slide := 1, v_title_shape := Some (1, 0),
       v_left := 914400, v_top := 3657600, v_width := 5486400, v_height := 914400,
       v_textbox := (1, 1), v_text_frame := (1, 1), v_p := ((1, 1), 0), v_shape := (1, 2),
       v_textbox2 := (1, 3), v_text_frame2 := (1, 3), v_p2 := ((1, 3), 0),
       v_output_path := ustr ''tests/fixtures/simple.pptx''\<rparr>"

definition simple_document :: presentation where
  "simple_document =
     \<lparr>slide_width = 9144000, slide_height = 6858000,
      slides =
        [\<lparr>slide_layout = \<lparr>layout_name = ''Title Slide'', layout_placeholders = [0, 1]\<rparr>,
          shapes = [placeholder_shape 0 title_literal, placeholder_shape 1 subtitle_literal]\<rparr>,
         \<lparr>slide_layout = \<lparr>layout_name = ''Title and Content'', layout_placeholders = [0, 1]\<rparr>,
          shapes =
            [placeholder_shape 0 content_title_literal,
             placeholder_shape 1 [],
             \<lparr>kind = TextBox,
              geom = Some \<lparr>shape_left = 914400, shape_top = 1828800,
                           shape_width = 7315200, shape_height = 3657600\<rparr>,
              frame = \<lparr>word_wrap = Some True,
                       paragraphs =
                         [\<lparr>para_text = line1_literal, font_size = Some 228600,
                           font_bold = None, level = 0\<rparr>,
                          \<lparr>para_text = line2_literal, font_size = Some 228600,
                           font_bold = None, level = 1\<rparr>,
                          \<lparr>para_text = line3_literal, font_size = Some 228600,
                           font_bold = None, level = 0\<rparr>]\<rparr>,
              fill = \<lparr>fill_kind = NoFill, fore_color_rgb = None\<rparr>,
              line = \<lparr>line_color_rgb = None, line_width = 0\<rparr>\<rparr>]\<rparr>]\<rparr>"

definition simple_frame :: frame where
  "simple_frame =
     unbound\<lparr>v_prs := simple_document, v_title := Some (0, 0), v_subtitle := Some (0, 1),
       v_title_shape := Some (1, 0), v_left := 914400, v_top := 1828800, v_width := 7315200,
       v_height := 3657600, v_textbox := (1, 2), v_text_frame := (1, 2), v_p := ((1, 2), 2),
       v_slide_layout := \<lparr>layout_name = ''Title Slide'', layout_placeholders = [0, 1]\<rparr>,
       v_slide := 1,
       v_bullet_slide_layout :=
         \<lparr>layout_name = ''Title and Content'', layout_placeholders = [0, 1]\<rparr>,
       v_shapes := 1\<rparr>"

text \<open>
  Environments for concrete runs: one where everything works, on a console that is not
  UTF-8 and with arguments and variables set; one without the vendor library; one where
  saving fails; one where a vendor call raises \<open>ImportError\<close>.
\<close>

definition env_plain :: env where
  "env_plain =
     \<lparr>pptx_installed = True, fault = (\<lambda>n. None), console_encoding = ''cp936'',
      argv = [ustr ''--verbose''], environ = [(ustr ''OUTPUT'', ustr ''other.pptx'')],
      disk = Map.empty\<rparr>"

definition env_bare :: env where
  "env_bare =
     \<lparr>pptx_installed = True, fault = (\<lambda>n. None), console_encoding = ''utf-8'',
      argv = [], environ = [], disk = Map.empty\<rparr>"

definition env_without_pptx :: env where
  "env_without_pptx = env_plain\<lparr>pptx_installed := False\<rparr>"

definition permission_denied :: pyexc where
  "permission_denied = Raise (OtherException ''PermissionError'') (ustr ''[Errno 13] Permission denied'')"

definition env_save_fails :: env where
  "env_save_fails =
     env_plain\<lparr>fault := (\<lambda>n. if n = 59 \<or> n = 83 then Some permission_denied else None)\<rparr>"

definition import_failure :: pyexc where
  "import_failure = Raise ImportError (ustr ''cannot import name'')"

definition env_import_fails_inside :: env where
  "env_import_fails_inside =
     env_plain\<lparr>fault := (\<lambda>n. if n = 25 then Some import_failure else None)\<rparr>"

text \<open>What a successful run of each script prints.\<close>

definition test_report :: "(string \<times> pystr) list" where
  "test_report =
     [(''utf-8'', ustr ''[OK] Successfully created test PPTX file: tests/fixtures/simple.pptx''),
      (''utf-8'', ustr ''   Slide count: 2''),
      (''utf-8'', ustr ''   File size: ~2 slides with basic elements'')]"

definition module_not_found :: pyexc where
  "module_not_found = Raise ModuleNotFoundError (ustr ''No module named '' @ quoted (ustr ''pptx''))"

section \<open>Running statement lists\<close>

lemma exec_append:
  "exec inst flt (xs @ ys) s =
     (case exec inst flt xs s of
        (Some x, s') \<Rightarrow> (Some x, s')
      | (None, s') \<Rightarrow> exec inst flt ys s')"
  by (induction inst flt xs s rule: exec.induct) (auto split: option.splits sum.splits)

text \<open>A run that raised nothing is the run of the same statements with nothing failing.\<close>

lemma exec_ideal:
  "exec inst flt prog s = (None, s') \<Longrightarrow> exec True (\<lambda>n. None) prog s = (None, s')"
  by (induction inst flt prog s rule: exec.induct)
     (auto split: option.splits sum.splits if_splits)

lemma exec_quiet:
  "list_all quiet prog \<Longrightarrow> exec inst flt prog s = (r, s') \<Longrightarrow>
   stdout s' = stdout s \<and> stdout_encoding s' = stdout_encoding s \<and> stderr s' = stderr s"
  by (induction inst flt prog s rule: exec.induct)
     (auto split: option.splits sum.splits if_splits)

lemmas vendor_defs =
  Presentation_def slide_layouts_def slide_layouts_getitem_def new_paragraph_def new_shape_def
  add_slide_def update_slide_def update_shape_def update_paragraph_def get_shape_def
  shapes_title_def placeholders_getitem_def set_shape_text_def add_textbox_def add_shape_def
  set_word_wrap_def paragraphs_getitem_def add_paragraph_def set_para_text_def set_font_size_def
  set_font_bold_def set_level_def fill_solid_def set_fill_fore_color_rgb_def
  set_line_color_rgb_def set_line_width_def RGBColor_def Inches_def Pt_def py_int_def bind_exc_def

section \<open>scripts/create-test-pptx.py: the run\<close>

lemma build_test:
  "locals s = unbound \<Longrightarrow>
   exec True (\<lambda>n. None) create_test_pptx_build s =
     (None, s\<lparr>locals := test_frame,
              files := (files s)(ustr ''tests/fixtures/simple.pptx'' \<mapsto> test_document)\<rparr>)"
  by (simp add: create_test_pptx_build_def vendor_defs unbound_def test_frame_def
        test_document_def placeholder_shape_def ustr_def)

lemma build_test_quiet: "list_all quiet create_test_pptx_build"
  by (simp add: create_test_pptx_build_def)

lemma report_test:
  "exec inst flt create_test_pptx_report s =
     (None,
      print (ustr ''   File size: ~'' @ str_of_nat (length (slides (v_prs (locals s))))
               @ ustr '' slides with basic elements'')
        (print (ustr ''   Slide count: '' @ str_of_nat (length (slides (v_prs (locals s)))))
           (print (ustr ''[OK] Successfully created test PPTX file: '' @ v_output_path (locals s)) s)))"
  by (simp add: create_test_pptx_report_def print_def)

lemma at_main_eq:
  "at_main e =
     (if pptx_installed e then (None, (start e)\<lparr>stdout_encoding := ''utf-8''\<rparr>)
      else (Some (Raise ModuleNotFoundError (ustr ''No module named '' @ quoted (ustr ''pptx''))),
            start e))"
  by (simp add: at_main_def create_test_pptx_prelude_def)

lemma create_test_pptx_raises:
  assumes "create_test_pptx e s = (Inl x, s')"
  shows "stdout s' = stdout s \<and> stdout_encoding s' = stdout_encoding s \<and> stderr s' = stderr s"
proof -
  from assms have "exec (pptx_installed e) (fault e) create_test_pptx_build s = (Some x, s')"
    by (auto simp: create_test_pptx_def create_test_pptx_body_def exec_append report_test
          split: prod.splits option.splits)
  then show ?thesis
    using exec_quiet [OF build_test_quiet] by blast
qed

lemma create_test_pptx_returns:
  assumes "locals s = unbound" and "create_test_pptx e s = (Inr p, s')"
  shows "p = ustr ''tests/fixtures/simple.pptx'' \<and>
         s' = s\<lparr>locals := test_frame,
                 files := (files s)(ustr ''tests/fixtures/simple.pptx'' \<mapsto> test_document),
                 stdout := stdout s @ map (Pair (stdout_encoding s)) (map snd test_report)\<rparr>"
proof -
  from assms(2) have run: "exec (pptx_installed e) (fault e) create_test_pptx_body s = (None, s')"
    and p: "p = v_output_path (locals s')"
    by (auto simp: create_test_pptx_def split: prod.splits option.splits)
  have "exec True (\<lambda>n. None) create_test_pptx_body s = (None, s')"
    by (rule exec_ideal [OF run])
  then have s': "s' = s\<lparr>locals := test_frame,
                 files := (files s)(ustr ''tests/fixtures/simple.pptx'' \<mapsto> test_document),
                 stdout := stdout s @ map (Pair (stdout_encoding s)) (map snd test_report)\<rparr>"
    by (simp add: create_test_pptx_body_def exec_append build_test [OF assms(1)] report_test
          print_def test_frame_def test_document_def test_report_def str_of_nat.simps ustr_def)
  from p s' show ?thesis
    by (simp add: test_frame_def)
qed

lemma create_test_pptx_no_fault:
  assumes "locals s = unbound" and "pptx_installed e" and "fault e = (\<lambda>n. None)"
  shows "fst (create_test_pptx e s) = Inr (ustr ''tests/fixtures/simple.pptx'')"
  by (simp add: create_test_pptx_def create_test_pptx_body_def exec_append assms(2,3)
        build_test [OF assms(1)] report_test test_frame_def print_def)

text \<open>
  The whole run, by what happened in it. Without the vendor library the import of
  line 6 raises before the \<open>try\<close> of line 92 is entered, so the handler of line 94
  is not in force and the exception reaches the top of the module.
\<close>

lemma run_test_missing:
  "\<not> pptx_installed e \<Longrightarrow> run_create_test_pptx e = (1, (start e)\<lparr>stderr := [module_not_found]\<rparr>)"
  by (simp add: run_create_test_pptx_def at_main_eq uncaught_def print_exc_def start_def
        module_not_found_def)

lemma run_test_success:
  assumes "create_test_pptx_succeeds e"
  shows "run_create_test_pptx e =
           (0, \<lparr>stdout_encoding = ''utf-8'', stdout = test_report, stderr = [],
                files = (disk e)(ustr ''tests/fixtures/simple.pptx'' \<mapsto> test_document),
                locals = test_frame\<rparr>) \<and>
         create_test_pptx_returned e = Some (ustr ''tests/fixtures/simple.pptx'')"
proof -
  let ?s = "(start e)\<lparr>stdout_encoding := ''utf-8''\<rparr>"
  from assms have inst: "pptx_installed e"
    by (auto simp: create_test_pptx_succeeds_def create_test_pptx_returned_def at_main_eq
          split: if_splits)
  with assms obtain p s' where call: "create_test_pptx e ?s = (Inr p, s')"
    by (auto simp: create_test_pptx_succeeds_def create_test_pptx_returned_def at_main_eq
          split: prod.splits sum.splits)
  have "locals ?s = unbound"
    by (simp add: start_def)
  from create_test_pptx_returns [OF this call] inst call show ?thesis
    by (simp add: run_create_test_pptx_def create_test_pptx_returned_def at_main_eq
          main_block_def start_def test_report_def)
qed

lemma run_test_raised:
  assumes "create_test_pptx_raised e = Some x"
  shows "run_create_test_pptx e =
           (0, if isinstance_ImportError x
               then (snd (create_test_pptx e ((start e)\<lparr>stdout_encoding := ''utf-8''\<rparr>)))
                      \<lparr>stdout := [(''utf-8'', ustr ''[ERROR] Need to install python-pptx''),
                                  (''utf-8'', ustr ''   Run: pip install python-pptx'')]\<rparr>
               else (snd (create_test_pptx e ((start e)\<lparr>stdout_encoding := ''utf-8''\<rparr>)))
                      \<lparr>stdout := [(''utf-8'', ustr ''[ERROR] Failed to create file: '' @ exc_str x)],
                        stderr := [x]\<rparr>)"
proof -
  let ?s = "(start e)\<lparr>stdout_encoding := ''utf-8''\<rparr>"
  from assms have inst: "pptx_installed e"
    by (auto simp: create_test_pptx_raised_def at_main_eq split: if_splits)
  with assms obtain s' where call: "create_test_pptx e ?s = (Inl x, s')"
    by (auto simp: create_test_pptx_raised_def at_main_eq split: prod.splits sum.splits)
  from create_test_pptx_raises [OF call]
  have "stdout s' = [] \<and> stdout_encoding s' = ''utf-8'' \<and> stderr s' = []"
    by (simp add: start_def)
  with inst call show ?thesis
    by (simp add: run_create_test_pptx_def at_main_eq main_block_def print_def print_exc_def)
qed

lemma test_succeeds_no_fault:
  "pptx_installed e \<Longrightarrow> fault e = (\<lambda>n. None) \<Longrightarrow> create_test_pptx_succeeds e"
  using create_test_pptx_no_fault [of "(start e)\<lparr>stdout_encoding := ''utf-8''\<rparr>" e]
  by (auto simp: create_test_pptx_succeeds_def create_test_pptx_returned_def at_main_eq start_def
        split: prod.splits sum.splits)

lemma test_outcomes:
  "\<not> pptx_installed e \<or> create_test_pptx_succeeds e \<or> (\<exists>x. create_test_pptx_raised e = Some x)"
  by (auto simp: create_test_pptx_succeeds_def create_test_pptx_returned_def
        create_test_pptx_raised_def at_main_eq split: prod.splits sum.splits)

section \<open>tests/fixtures/create_simple_pptx.py: the run\<close>

lemma build_simple:
  "locals s = unbound \<Longrightarrow>
   exec True (\<lambda>n. None) create_simple_pptx_build s =
     (None, s\<lparr>locals := simple_frame,
              files := (files s)(ustr ''simple.pptx'' \<mapsto> simple_document)\<rparr>)"
  by (simp add: create_simple_pptx_build_def vendor_defs unbound_def simple_frame_def
        simple_document_def placeholder_shape_def title_literal_def subtitle_literal_def
        content_title_literal_def line1_literal_def line2_literal_def line3_literal_def)

lemma build_simple_quiet: "list_all quiet (create_simple_pptx_imports @ create_simple_pptx_build)"
  by (simp add: create_simple_pptx_build_def create_simple_pptx_imports_def)

lemma imports_simple:
  "exec inst flt create_simple_pptx_imports s =
     (if inst then (None, s) else (Some module_not_found, s))"
  by (simp add: create_simple_pptx_imports_def module_not_found_def)

lemma report_simple:
  "exec inst flt create_simple_pptx_report s =
     (None, print (ustr ''simple.pptx created successfully'') s)"
  by (simp add: create_simple_pptx_report_def)

lemma run_simple_raised:
  assumes "create_simple_pptx_raised e = Some x"
  shows "fst (run_create_simple_pptx e) = 1 \<and> stdout (snd (run_create_simple_pptx e)) = [] \<and>
         stderr (snd (run_create_simple_pptx e)) = [x]"
proof -
  obtain s' where run: "exec (pptx_installed e) (fault e) create_simple_pptx_module (start e) = (Some x, s')"
    using assms by (cases "exec (pptx_installed e) (fault e) create_simple_pptx_module (start e)")
      (simp add: create_simple_pptx_raised_def)
  then have "exec (pptx_installed e) (fault e) (create_simple_pptx_imports @ create_simple_pptx_build)
               (start e) = (Some x, s')"
    unfolding create_simple_pptx_module_def append_assoc [symmetric]
    by (subst (asm) exec_append) (auto simp: report_simple split: prod.splits option.splits)
  from exec_quiet [OF build_simple_quiet this]
  have "stdout s' = [] \<and> stderr s' = []"
    by (simp add: start_def)
  with run show ?thesis
    by (simp add: run_create_simple_pptx_def uncaught_def print_exc_def)
qed

lemma run_simple_missing:
  "\<not> pptx_installed e \<Longrightarrow> run_create_simple_pptx e = (1, (start e)\<lparr>stderr := [module_not_found]\<rparr>)"
  by (simp add: run_create_simple_pptx_def create_simple_pptx_module_def exec_append
        imports_simple uncaught_def print_exc_def start_def)

lemma run_simple_success:
  assumes "create_simple_pptx_succeeds e"
  shows "run_create_simple_pptx e =
           (0, \<lparr>stdout_encoding = console_encoding e,
                stdout = [(console_encoding e, ustr ''simple.pptx created successfully'')],
                stderr = [],
                files = (disk e)(ustr ''simple.pptx'' \<mapsto> simple_document),
                locals = simple_frame\<rparr>)"
proof -
  from assms obtain s' where
    run: "exec (pptx_installed e) (fault e) create_simple_pptx_module (start e) = (None, s')"
    by (cases "exec (pptx_installed e) (fault e) create_simple_pptx_module (start e)")
       (auto simp: create_simple_pptx_succeeds_def run_create_simple_pptx_def uncaught_def
          split: option.splits)
  have "locals (start e) = unbound"
    by (simp add: start_def)
  with exec_ideal [OF run]
  have "s' = \<lparr>stdout_encoding = console_encoding e,
                stdout = [(console_encoding e, ustr ''simple.pptx created successfully'')],
                stderr = [],
                files = (disk e)(ustr ''simple.pptx'' \<mapsto> simple_document),
                locals = simple_frame\<rparr>"
    by (simp add: create_simple_pptx_module_def exec_append imports_simple build_simple
          report_simple print_def start_def)
  with run show ?thesis
    by (simp add: run_create_simple_pptx_def)
qed

lemma simple_succeeds_no_fault:
  "pptx_installed e \<Longrightarrow> fault e = (\<lambda>n. None) \<Longrightarrow> create_simple_pptx_succeeds e"
  by (simp add: create_simple_pptx_succeeds_def run_create_simple_pptx_def
        create_simple_pptx_module_def exec_append imports_simple build_simple report_simple
        start_def)

lemma simple_outcomes:
  "create_simple_pptx_succeeds e \<or> (\<exists>x. create_simple_pptx_raised e = Some x)"
  by (cases "exec (pptx_installed e) (fault e) create_simple_pptx_module (start e)")
     (auto simp: create_simple_pptx_succeeds_def create_simple_pptx_raised_def
        run_create_simple_pptx_def)

text \<open>The concrete environments.\<close>

lemma plain_test_succeeds: "create_test_pptx_succeeds env_plain"
  by (rule test_succeeds_no_fault) (simp_all add: env_plain_def)

lemma bare_test_succeeds: "create_test_pptx_succeeds env_bare"
  by (rule test_succeeds_no_fault) (simp_all add: env_bare_def)

lemma plain_simple_succeeds: "create_simple_pptx_succeeds env_plain"
  by (rule simple_succeeds_no_fault) (simp_all add: env_plain_def)

lemma bare_simple_succeeds: "create_simple_pptx_succeeds env_bare"
  by (rule simple_succeeds_no_fault) (simp_all add: env_bare_def)

lemma save_fails_test_raised: "create_test_pptx_raised env_save_fails = Some permission_denied"
  by (simp add: create_test_pptx_raised_def at_main_eq create_test_pptx_def
        create_test_pptx_body_def exec_append create_test_pptx_build_def vendor_defs
        env_save_fails_def env_plain_def start_def unbound_def)

lemma save_fails_simple_raised: "create_simple_pptx_raised env_save_fails = Some permission_denied"
  by (simp add: create_simple_pptx_raised_def create_simple_pptx_module_def exec_append
        imports_simple create_simple_pptx_build_def vendor_defs
        env_save_fails_def env_plain_def start_def unbound_def)

lemma import_fails_inside_raised: "create_test_pptx_raised env_import_fails_inside = Some import_failure"
  by (simp add: create_test_pptx_raised_def at_main_eq create_test_pptx_def
        create_test_pptx_body_def exec_append create_test_pptx_build_def vendor_defs
        env_import_fails_inside_def env_plain_def start_def unbound_def)

text \<open>The variables a run leaves depend on the vendor's behaviour only.\<close>

lemma exec_locals:
  "locals s = locals t \<Longrightarrow>
   fst (exec inst flt prog s) = fst (exec inst flt prog t) \<and>
   locals (snd (exec inst flt prog s)) = locals (snd (exec inst flt prog t))"
proof (induction prog arbitrary: s t)
  case Nil
  then show ?case by simp
next
  case (Cons x xs)
  note same = Cons.prems
  have rest: "\<And>s' t'. locals s' = locals t' \<Longrightarrow>
      fst (exec inst flt xs s') = fst (exec inst flt xs t') \<and>
      locals (snd (exec inst flt xs s')) = locals (snd (exec inst flt xs t'))"
    by (rule Cons.IH)
  show ?case
  proof (cases x)
    case (Import n pkg)
    with same rest [of s t] show ?thesis by (cases inst) simp_all
  next
    case (Nop n)
    with same rest [of s t] show ?thesis by simp
  next
    case (Rewrap n enc)
    with same rest [of "s\<lparr>stdout_encoding := enc\<rparr>" "t\<lparr>stdout_encoding := enc\<rparr>"]
    show ?thesis by simp
  next
    case (Vendor n f)
    have "\<And>l. fst (exec inst flt xs (s\<lparr>locals := l\<rparr>)) = fst (exec inst flt xs (t\<lparr>locals := l\<rparr>)) \<and>
        locals (snd (exec inst flt xs (s\<lparr>locals := l\<rparr>))) =
        locals (snd (exec inst flt xs (t\<lparr>locals := l\<rparr>)))"
      by (rule rest) simp
    with same Vendor show ?thesis
      by (simp split: option.splits sum.splits)
  next
    case (Assign n f)
    with same rest [of "s\<lparr>locals := f (locals s)\<rparr>" "t\<lparr>locals := f (locals t)\<rparr>"]
    show ?thesis by simp
  next
    case (Save n f)
    have "\<And>a b. fst (exec inst flt xs (s\<lparr>files := a\<rparr>)) = fst (exec inst flt xs (t\<lparr>files := b\<rparr>)) \<and>
        locals (snd (exec inst flt xs (s\<lparr>files := a\<rparr>))) =
        locals (snd (exec inst flt xs (t\<lparr>files := b\<rparr>)))"
      by (rule rest) (simp add: same)
    with same Save show ?thesis
      by (simp split: option.splits)
  next
    case (Print n f)
    with same rest [of "print (f (locals s)) s" "print (f (locals t)) t"]
    show ?thesis by (simp add: print_def)
  qed
qed

lemma test_document_locals:
  "create_test_pptx_document e =
     (if pptx_installed e
      then v_prs (locals (snd (exec True (fault e) create_test_pptx_body
                                 ((start e)\<lparr>stdout_encoding := ''utf-8''\<rparr>))))
      else v_prs unbound)"
  by (auto simp: create_test_pptx_document_def run_create_test_pptx_def at_main_eq
        main_block_def create_test_pptx_def uncaught_def print_def print_exc_def start_def
        split: prod.splits option.splits)

lemma simple_document_locals:
  "create_simple_pptx_document e =
     v_prs (locals (snd (exec (pptx_installed e) (fault e) create_simple_pptx_module (start e))))"
  by (auto simp: create_simple_pptx_document_def run_create_simple_pptx_def uncaught_def
        print_exc_def split: prod.splits option.splits)

section \<open>Error handling\<close>

text \<open>
  C1, as the claim states it, fails: without the vendor library
  tests/fixtures/create_simple_pptx.py prints nothing on standard output and the
  process ends with exit status 1.
\<close>

theorem missing_dependency_counterexample:
  "\<not> pptx_installed env_without_pptx \<and>
   fst (run_create_simple_pptx env_without_pptx) = 1 \<and>
   stdout (snd (run_create_simple_pptx env_without_pptx)) = []"
  using run_simple_missing [of env_without_pptx]
  by (simp add: env_without_pptx_def env_plain_def start_def)

text \<open>
  C1, amended: if the vendor library is not installed, tests/fixtures/create_simple_pptx.py
  has no handler: it prints nothing on standard output, the interpreter writes the
  traceback of the \<open>ModuleNotFoundError\<close> to standard error and the process exits with
  status 1. In scripts/create-test-pptx.py, whenever an \<open>ImportError\<close> is raised inside
  \<open>create_test_pptx()\<close>, the handler prints the missing-dependency message with its
  install instructions and the process exits with status 0.
\<close>

theorem missing_dependency_by_design:
  "(\<not> pptx_installed e \<longrightarrow>
      fst (run_create_simple_pptx e) = 1 \<and>
      stdout (snd (run_create_simple_pptx e)) = [] \<and>
      stderr (snd (run_create_simple_pptx e)) = [module_not_found]) \<and>
   (create_test_pptx_raised e = Some x \<and> isinstance_ImportError x \<longrightarrow>
      fst (run_create_test_pptx e) = 0 \<and>
      stdout (snd (run_create_test_pptx e)) =
        [(''utf-8'', ustr ''[ERROR] Need to install python-pptx''),
         (''utf-8'', ustr ''   Run: pip install python-pptx'')] \<and>
      stderr (snd (run_create_test_pptx e)) = [])"
proof (intro conjI impI)
  assume "\<not> pptx_installed e"
  then have run: "run_create_simple_pptx e = (1, (start e)\<lparr>stderr := [module_not_found]\<rparr>)"
    by (rule run_simple_missing)
  show "fst (run_create_simple_pptx e) = 1"
    by (simp add: run)
  show "stdout (snd (run_create_simple_pptx e)) = []"
    by (simp add: run start_def)
  show "stderr (snd (run_create_simple_pptx e)) = [module_not_found]"
    by (simp add: run)
next
  assume h: "create_test_pptx_raised e = Some x \<and> isinstance_ImportError x"
  let ?s = "snd (create_test_pptx e ((start e)\<lparr>stdout_encoding := ''utf-8''\<rparr>))"
  have inst: "pptx_installed e"
    using h by (auto simp: create_test_pptx_raised_def at_main_eq split: if_splits)
  have call: "create_test_pptx e ((start e)\<lparr>stdout_encoding := ''utf-8''\<rparr>) = (Inl x, ?s)"
    using h inst
    by (auto simp: create_test_pptx_raised_def at_main_eq split: prod.splits sum.splits)
  have err: "stderr ?s = []"
    using create_test_pptx_raises [OF call] by (simp add: start_def)
  have run: "run_create_test_pptx e =
      (0, ?s\<lparr>stdout := [(''utf-8'', ustr ''[ERROR] Need to install python-pptx''),
                          (''utf-8'', ustr ''   Run: pip install python-pptx'')]\<rparr>)"
    using run_test_raised [of e x] h by simp
  show "fst (run_create_test_pptx e) = 0"
    by (simp add: run)
  show "stdout (snd (run_create_test_pptx e)) =
        [(''utf-8'', ustr ''[ERROR] Need to install python-pptx''),
         (''utf-8'', ustr ''   Run: pip install python-pptx'')]"
    by (simp add: run)
  show "stderr (snd (run_create_test_pptx e)) = []"
    by (simp add: run err)
qed

theorem missing_dependency_by_design_witness:
  "(\<not> pptx_installed env_without_pptx \<and>
      fst (run_create_simple_pptx env_without_pptx) = 1 \<and>
      stdout (snd (run_create_simple_pptx env_without_pptx)) = [] \<and>
      stderr (snd (run_create_simple_pptx env_without_pptx)) = [module_not_found]) \<and>
   (create_test_pptx_raised env_import_fails_inside = Some import_failure \<and>
      isinstance_ImportError import_failure \<and>
      fst (run_create_test_pptx env_import_fails_inside) = 0 \<and>
      stdout (snd (run_create_test_pptx env_import_fails_inside)) =
        [(''utf-8'', ustr ''[ERROR] Need to install python-pptx''),
         (''utf-8'', ustr ''   Run: pip install python-pptx'')] \<and>
      stderr (snd (run_create_test_pptx env_import_fails_inside)) = [])"
proof -
  have a: "\<not> pptx_installed env_without_pptx"
    by (simp add: env_without_pptx_def)
  have b: "create_test_pptx_raised env_import_fails_inside = Some import_failure \<and>
           isinstance_ImportError import_failure"
    by (simp add: import_fails_inside_raised import_failure_def)
  from a b missing_dependency_by_design [of env_without_pptx import_failure]
    missing_dependency_by_design [of env_import_fails_inside import_failure]
  show ?thesis by blast
qed

text \<open>
  C2, as the claim states it, fails: when saving raises \<open>PermissionError\<close>,
  tests/fixtures/create_simple_pptx.py prints nothing on standard output and the
  process ends with exit status 1.
\<close>

theorem general_failure_counterexample:
  "create_simple_pptx_raised env_save_fails = Some permission_denied \<and>
   \<not> isinstance_ImportError permission_denied \<and>
   fst (run_create_simple_pptx env_save_fails) = 1 \<and>
   stdout (snd (run_create_simple_pptx env_save_fails)) = []"
  using run_simple_raised [OF save_fails_simple_raised]
  by (simp add: save_fails_simple_raised permission_denied_def)

text \<open>
  C2, amended: in scripts/create-test-pptx.py every error other than an \<open>ImportError\<close>
  raised inside \<open>create_test_pptx()\<close> is caught: the script prints the generic failure
  message with the error's message on standard output and the trace of the error on
  standard error, and the process exits with status 0.
  tests/fixtures/create_simple_pptx.py has no handler: an error raised in it ends the
  process with the interpreter's traceback on standard error and exit status 1, and
  nothing is printed on standard output.
\<close>

theorem general_failure_by_design:
  "(create_test_pptx_raised e = Some x \<and> \<not> isinstance_ImportError x \<longrightarrow>
      fst (run_create_test_pptx e) = 0 \<and>
      stdout (snd (run_create_test_pptx e)) =
        [(''utf-8'', ustr ''[ERROR] Failed to create file: '' @ exc_str x)] \<and>
      stderr (snd (run_create_test_pptx e)) = [x]) \<and>
   (create_simple_pptx_raised e = Some x \<longrightarrow>
      fst (run_create_simple_pptx e) = 1 \<and>
      stdout (snd (run_create_simple_pptx e)) = [] \<and>
      stderr (snd (run_create_simple_pptx e)) = [x])"
proof (intro conjI impI)
  assume h: "create_test_pptx_raised e = Some x \<and> \<not> isinstance_ImportError x"
  let ?s = "snd (create_test_pptx e ((start e)\<lparr>stdout_encoding := ''utf-8''\<rparr>))"
  have run: "run_create_test_pptx e =
      (0, ?s\<lparr>stdout := [(''utf-8'', ustr ''[ERROR] Failed to create file: '' @ exc_str x)],
               stderr := [x]\<rparr>)"
    using run_test_raised [of e x] h by simp
  show "fst (run_create_test_pptx e) = 0"
    by (simp add: run)
  show "stdout (snd (run_create_test_pptx e)) =
        [(''utf-8'', ustr ''[ERROR] Failed to create file: '' @ exc_str x)]"
    by (simp add: run)
  show "stderr (snd (run_create_test_pptx e)) = [x]"
    by (simp add: run)
next
  assume h: "create_simple_pptx_raised e = Some x"
  show "fst (run_create_simple_pptx e) = 1"
    using run_simple_raised [OF h] by simp
  show "stdout (snd (run_create_simple_pptx e)) = []"
    using run_simple_raised [OF h] by simp
  show "stderr (snd (run_create_simple_pptx e)) = [x]"
    using run_simple_raised [OF h] by simp
qed

theorem general_failure_by_design_witness:
  "(create_test_pptx_raised env_save_fails = Some permission_denied \<and>
      \<not> isinstance_ImportError permission_denied \<and>
      fst (run_create_test_pptx env_save_fails) = 0 \<and>
      stdout (snd (run_create_test_pptx env_save_fails)) =
        [(''utf-8'', ustr ''[ERROR] Failed to create file: '' @ exc_str permission_denied)] \<and>
      stderr (snd (run_create_test_pptx env_save_fails)) = [permission_denied]) \<and>
   (create_simple_pptx_raised env_save_fails = Some permission_denied \<and>
      fst (run_create_simple_pptx env_save_fails) = 1 \<and>
      stdout (snd (run_create_simple_pptx env_save_fails)) = [] \<and>
      stderr (snd (run_create_simple_pptx env_save_fails)) = [permission_denied])"
proof -
  have a: "create_test_pptx_raised env_save_fails = Some permission_denied \<and>
           \<not> isinstance_ImportError permission_denied"
    by (simp add: save_fails_test_raised permission_denied_def)
  have b: "create_simple_pptx_raised env_save_fails = Some permission_denied"
    by (rule save_fails_simple_raised)
  from a b general_failure_by_design [of env_save_fails permission_denied]
  show ?thesis by blast
qed

section \<open>What a successful run prints and writes\<close>

text \<open>
  C3, as the claim states it, fails: the one line tests/fixtures/create_simple_pptx.py
  prints on success does not name the slide count.
\<close>

theorem success_line_counterexample:
  "create_simple_pptx_succeeds env_plain \<and>
   \<not> names_text (str_of_nat (length (slides (create_simple_pptx_document env_plain))))
        (stdout (snd (run_create_simple_pptx env_plain)))"
  using run_simple_success [OF plain_simple_succeeds] plain_simple_succeeds
  by (simp add: create_simple_pptx_document_def simple_frame_def simple_document_def
        names_text_def str_of_nat.simps ustr_def)

text \<open>
  C3, amended: on success scripts/create-test-pptx.py prints three lines on standard
  output, which name the output path and the slide count: the success line with the
  path tests/fixtures/simple.pptx, "Slide count: 2" and "File size: ~2 slides with
  basic elements". tests/fixtures/create_simple_pptx.py prints the single line
  "simple.pptx created successfully", which names the output path and no slide count.
\<close>

theorem success_lines:
  "(create_test_pptx_succeeds e \<longrightarrow>
      stdout (snd (run_create_test_pptx e)) = test_report \<and>
      names_text (ustr ''tests/fixtures/simple.pptx'') (stdout (snd (run_create_test_pptx e))) \<and>
      names_text (str_of_nat (length (slides (create_test_pptx_document e))))
        (stdout (snd (run_create_test_pptx e)))) \<and>
   (create_simple_pptx_succeeds e \<longrightarrow>
      stdout (snd (run_create_simple_pptx e)) =
        [(console_encoding e, ustr ''simple.pptx created successfully'')] \<and>
      names_text (ustr ''simple.pptx'') (stdout (snd (run_create_simple_pptx e))))"
proof (intro conjI impI)
  assume h: "create_test_pptx_succeeds e"
  show "stdout (snd (run_create_test_pptx e)) = test_report"
    using run_test_success [OF h] by simp
  show "names_text (ustr ''tests/fixtures/simple.pptx'') (stdout (snd (run_create_test_pptx e)))"
    using run_test_success [OF h] by (simp add: test_report_def names_text_def ustr_def)
  show "names_text (str_of_nat (length (slides (create_test_pptx_document e))))
          (stdout (snd (run_create_test_pptx e)))"
    using run_test_success [OF h]
    by (simp add: create_test_pptx_document_def test_frame_def test_document_def
          test_report_def names_text_def str_of_nat.simps ustr_def)
next
  assume h: "create_simple_pptx_succeeds e"
  show "stdout (snd (run_create_simple_pptx e)) =
          [(console_encoding e, ustr ''simple.pptx created successfully'')]"
    using run_simple_success [OF h] by simp
  show "names_text (ustr ''simple.pptx'') (stdout (snd (run_create_simple_pptx e)))"
    using run_simple_success [OF h] by (simp add: names_text_def ustr_def)
qed

theorem success_lines_witness:
  "(create_test_pptx_succeeds env_plain \<and>
      stdout (snd (run_create_test_pptx env_plain)) = test_report \<and>
      names_text (ustr ''tests/fixtures/simple.pptx'') (stdout (snd (run_create_test_pptx env_plain))) \<and>
      names_text (str_of_nat (length (slides (create_test_pptx_document env_plain))))
        (stdout (snd (run_create_test_pptx env_plain)))) \<and>
   (create_simple_pptx_succeeds env_plain \<and>
      stdout (snd (run_create_simple_pptx env_plain)) =
        [(console_encoding env_plain, ustr ''simple.pptx created successfully'')] \<and>
      names_text (ustr ''simple.pptx'') (stdout (snd (run_create_simple_pptx env_plain))))"
  using success_lines [of env_plain] plain_test_succeeds plain_simple_succeeds
  by blast

text \<open>
  C4: after every successful run of either script the document in memory has exactly
  two slides, and the saved file, opened again, has exactly two slides.
\<close>

theorem two_slides:
  "(create_test_pptx_succeeds e \<longrightarrow>
      length (slides (create_test_pptx_document e)) = 2 \<and>
      map_sum id (\<lambda>d. length (slides d))
        (open_presentation (files (snd (run_create_test_pptx e))) (ustr ''tests/fixtures/simple.pptx''))
        = Inr 2) \<and>
   (create_simple_pptx_succeeds e \<longrightarrow>
      length (slides (create_simple_pptx_document e)) = 2 \<and>
      map_sum id (\<lambda>d. length (slides d))
        (open_presentation (files (snd (run_create_simple_pptx e))) (ustr ''simple.pptx''))
        = Inr 2)"
proof (intro conjI impI)
  assume h: "create_test_pptx_succeeds e"
  show "length (slides (create_test_pptx_document e)) = 2"
    using run_test_success [OF h]
    by (simp add: create_test_pptx_document_def test_frame_def test_document_def)
  show "map_sum id (\<lambda>d. length (slides d))
          (open_presentation (files (snd (run_create_test_pptx e))) (ustr ''tests/fixtures/simple.pptx''))
          = Inr 2"
    using run_test_success [OF h]
    by (simp add: open_presentation_def test_document_def)
next
  assume h: "create_simple_pptx_succeeds e"
  show "length (slides (create_simple_pptx_document e)) = 2"
    using run_simple_success [OF h]
    by (simp add: create_simple_pptx_document_def simple_frame_def simple_document_def)
  show "map_sum id (\<lambda>d. length (slides d))
          (open_presentation (files (snd (run_create_simple_pptx e))) (ustr ''simple.pptx''))
          = Inr 2"
    using run_simple_success [OF h]
    by (simp add: open_presentation_def simple_document_def)
qed

theorem two_slides_witness:
  "(create_test_pptx_succeeds env_plain \<and>
      length (slides (create_test_pptx_document env_plain)) = 2 \<and>
      map_sum id (\<lambda>d. length (slides d))
        (open_presentation (files (snd (run_create_test_pptx env_plain))) (ustr ''tests/fixtures/simple.pptx''))
        = Inr 2) \<and>
   (create_simple_pptx_succeeds env_plain \<and>
      length (slides (create_simple_pptx_document env_plain)) = 2 \<and>
      map_sum id (\<lambda>d. length (slides d))
        (open_presentation (files (snd (run_create_simple_pptx env_plain))) (ustr ''simple.pptx''))
        = Inr 2)"
  using two_slides [of env_plain] plain_test_succeeds plain_simple_succeeds
  by blast

text \<open>
  C5: on success each script has written its document to its fixed relative path,
  tests/fixtures/simple.pptx for scripts/create-test-pptx.py and simple.pptx for
  tests/fixtures/create_simple_pptx.py: the file at that path holds the document, and
  \<open>create_test_pptx\<close> returns its path.
\<close>

theorem saved_at_fixed_path:
  "(create_test_pptx_succeeds e \<longrightarrow>
      files (snd (run_create_test_pptx e)) (ustr ''tests/fixtures/simple.pptx'') =
        Some (create_test_pptx_document e) \<and>
      create_test_pptx_returned e = Some (ustr ''tests/fixtures/simple.pptx'')) \<and>
   (create_simple_pptx_succeeds e \<longrightarrow>
      files (snd (run_create_simple_pptx e)) (ustr ''simple.pptx'') =
        Some (create_simple_pptx_document e))"
proof (intro conjI impI)
  assume h: "create_test_pptx_succeeds e"
  show "files (snd (run_create_test_pptx e)) (ustr ''tests/fixtures/simple.pptx'') =
          Some (create_test_pptx_document e)"
    using run_test_success [OF h] by (simp add: create_test_pptx_document_def test_frame_def)
  show "create_test_pptx_returned e = Some (ustr ''tests/fixtures/simple.pptx'')"
    using run_test_success [OF h] by simp
next
  assume h: "create_simple_pptx_succeeds e"
  show "files (snd (run_create_simple_pptx e)) (ustr ''simple.pptx'') =
          Some (create_simple_pptx_document e)"
    using run_simple_success [OF h] by (simp add: create_simple_pptx_document_def simple_frame_def)
qed

theorem saved_at_fixed_path_witness:
  "(create_test_pptx_succeeds env_plain \<and>
      files (snd (run_create_test_pptx env_plain)) (ustr ''tests/fixtures/simple.pptx'') =
        Some (create_test_pptx_document env_plain) \<and>
      create_test_pptx_returned env_plain = Some (ustr ''tests/fixtures/simple.pptx'')) \<and>
   (create_simple_pptx_succeeds env_plain \<and>
      files (snd (run_create_simple_pptx env_plain)) (ustr ''simple.pptx'') =
        Some (create_simple_pptx_document env_plain))"
  using saved_at_fixed_path [of env_plain] plain_test_succeeds plain_simple_succeeds
  by blast

section \<open>The content of the documents\<close>

text \<open>
  C6: after every successful run the first slide has a title, and its text is the
  literal of the script: "PPTX to JSON Conversion Test" in scripts/create-test-pptx.py
  and the six Chinese characters of line 19 (U+6D4B U+8BD5 U+6F14 U+793A U+6587 U+7A3F)
  in tests/fixtures/create_simple_pptx.py.
\<close>

theorem first_slide_title:
  "(create_test_pptx_succeeds e \<longrightarrow>
      map_option (shape_text (create_test_pptx_document e))
        (shapes_title (create_test_pptx_document e) 0) =
        Some (ustr ''PPTX to JSON Conversion Test'')) \<and>
   (create_simple_pptx_succeeds e \<longrightarrow>
      map_option (shape_text (create_simple_pptx_document e))
        (shapes_title (create_simple_pptx_document e) 0) =
        Some [0x6D4B, 0x8BD5, 0x6F14, 0x793A, 0x6587, 0x7A3F])"
proof (intro conjI impI)
  assume h: "create_test_pptx_succeeds e"
  have "create_test_pptx_document e = test_document"
    using run_test_success [OF h] by (simp add: create_test_pptx_document_def test_frame_def)
  then show "map_option (shape_text (create_test_pptx_document e))
        (shapes_title (create_test_pptx_document e) 0) =
        Some (ustr ''PPTX to JSON Conversion Test'')"
    by (simp add: test_document_def placeholder_shape_def shapes_title_def shape_text_def
          get_shape_def)
next
  assume h: "create_simple_pptx_succeeds e"
  have "create_simple_pptx_document e = simple_document"
    using run_simple_success [OF h] by (simp add: create_simple_pptx_document_def simple_frame_def)
  then show "map_option (shape_text (create_simple_pptx_document e))
        (shapes_title (create_simple_pptx_document e) 0) =
        Some [0x6D4B, 0x8BD5, 0x6F14, 0x793A, 0x6587, 0x7A3F]"
    by (simp add: simple_document_def placeholder_shape_def shapes_title_def shape_text_def
          get_shape_def title_literal_def)
qed

theorem first_slide_title_witness:
  "(create_test_pptx_succeeds env_plain \<and>
      map_option (shape_text (create_test_pptx_document env_plain))
        (shapes_title (create_test_pptx_document env_plain) 0) =
        Some (ustr ''PPTX to JSON Conversion Test'')) \<and>
   (create_simple_pptx_succeeds env_plain \<and>
      map_option (shape_text (create_simple_pptx_document env_plain))
        (shapes_title (create_simple_pptx_document env_plain) 0) =
        Some [0x6D4B, 0x8BD5, 0x6F14, 0x793A, 0x6587, 0x7A3F])"
  using first_slide_title [of env_plain] plain_test_succeeds plain_simple_succeeds
  by blast

text \<open>
  C7: in the document scripts/create-test-pptx.py builds, the second slide has a
  rectangle, and only one, at left 5in and top 2in, 2in wide and 1.5in high, with a
  solid fill of colour RGB (0x70, 0xC0, 0x00) and a border line of colour RGB (0, 0, 0)
  and width 1pt.
\<close>

theorem rectangle_on_second_slide:
  "create_test_pptx_succeeds e \<Longrightarrow>
   map (\<lambda>sh. (geom sh, fill sh, line sh))
     (filter (\<lambda>sh. kind sh = AutoShape RECTANGLE) (shapes (slides (create_test_pptx_document e) ! 1))) =
     [(Some \<lparr>shape_left = Inches 5, shape_top = Inches 2,
             shape_width = Inches 2, shape_height = Inches 1.5\<rparr>,
       \<lparr>fill_kind = Solid, fore_color_rgb = Some (0x70, 0xC0, 0x00)\<rparr>,
       \<lparr>line_color_rgb = Some (0, 0, 0), line_width = Pt 1\<rparr>)]"
proof -
  assume h: "create_test_pptx_succeeds e"
  have "create_test_pptx_document e = test_document"
    using run_test_success [OF h] by (simp add: create_test_pptx_document_def test_frame_def)
  then show ?thesis
    by (simp add: test_document_def placeholder_shape_def Inches_def Pt_def py_int_def)
qed

theorem rectangle_on_second_slide_witness:
  "create_test_pptx_succeeds env_plain \<and>
   map (\<lambda>sh. (geom sh, fill sh, line sh))
     (filter (\<lambda>sh. kind sh = AutoShape RECTANGLE)
        (shapes (slides (create_test_pptx_document env_plain) ! 1))) =
     [(Some \<lparr>shape_left = Inches 5, shape_top = Inches 2,
             shape_width = Inches 2, shape_height = Inches 1.5\<rparr>,
       \<lparr>fill_kind = Solid, fore_color_rgb = Some (0x70, 0xC0, 0x00)\<rparr>,
       \<lparr>line_color_rgb = Some (0, 0, 0), line_width = Pt 1\<rparr>)]"
  using rectangle_on_second_slide [OF plain_test_succeeds] plain_test_succeeds
  by blast

text \<open>
  C9: in the document tests/fixtures/create_simple_pptx.py builds, the text box of the
  second slide has exactly three paragraphs, whose texts are the literals of lines 46,
  50 and 55 in this order, each of font size 18pt; the second has indent level 1 and
  the other two level 0.
\<close>

theorem text_box_paragraphs:
  "create_simple_pptx_succeeds e \<Longrightarrow>
   map (\<lambda>sh. map (\<lambda>p. (para_text p, font_size p, level p)) (paragraphs (frame sh)))
     (filter (\<lambda>sh. kind sh = TextBox) (shapes (slides (create_simple_pptx_document e) ! 1))) =
     [[([0x8FD9, 0x662F, 0x7B2C, 0x4E00, 0x884C, 0x6587, 0x672C], Some (Pt 18), 0),
       ([0x8FD9, 0x662F, 0x7B2C, 0x4E8C, 0x884C, 0x6587, 0x672C], Some (Pt 18), 1),
       ([0x8FD9, 0x662F, 0x7B2C, 0x4E09, 0x884C, 0x6587, 0x672C], Some (Pt 18), 0)]]"
proof -
  assume h: "create_simple_pptx_succeeds e"
  have "create_simple_pptx_document e = simple_document"
    using run_simple_success [OF h] by (simp add: create_simple_pptx_document_def simple_frame_def)
  then show ?thesis
    by (simp add: simple_document_def placeholder_shape_def Pt_def py_int_def
          line1_literal_def line2_literal_def line3_literal_def)
qed

theorem text_box_paragraphs_witness:
  "create_simple_pptx_succeeds env_plain \<and>
   map (\<lambda>sh. map (\<lambda>p. (para_text p, font_size p, level p)) (paragraphs (frame sh)))
     (filter (\<lambda>sh. kind sh = TextBox) (shapes (slides (create_simple_pptx_document env_plain) ! 1))) =
     [[([0x8FD9, 0x662F, 0x7B2C, 0x4E00, 0x884C, 0x6587, 0x672C], Some (Pt 18), 0),
       ([0x8FD9, 0x662F, 0x7B2C, 0x4E8C, 0x884C, 0x6587, 0x672C], Some (Pt 18), 1),
       ([0x8FD9, 0x662F, 0x7B2C, 0x4E09, 0x884C, 0x6587, 0x672C], Some (Pt 18), 0)]]"
  using text_box_paragraphs [OF plain_simple_succeeds] plain_simple_succeeds
  by blast

section \<open>Determinism and the encoding of standard output\<close>

text \<open>
  C8: each script is deterministic. A run does not depend on the command line or on
  the environment variables; any two runs in which the vendor library behaves alike
  leave the same document in memory, whatever the console, the files present, the
  arguments and the variables; and any two successful runs leave the same document,
  the one the literals of the script describe.
\<close>

theorem deterministic_documents:
  "run_create_test_pptx (e\<lparr>argv := a, environ := v\<rparr>) = run_create_test_pptx e \<and>
   run_create_simple_pptx (e\<lparr>argv := a, environ := v\<rparr>) = run_create_simple_pptx e \<and>
   (pptx_installed e1 = pptx_installed e2 \<and> fault e1 = fault e2 \<longrightarrow>
      create_test_pptx_document e1 = create_test_pptx_document e2 \<and>
      create_simple_pptx_document e1 = create_simple_pptx_document e2) \<and>
   (create_test_pptx_succeeds e1 \<and> create_test_pptx_succeeds e2 \<longrightarrow>
      create_test_pptx_document e1 = create_test_pptx_document e2 \<and>
      create_test_pptx_document e1 = test_document) \<and>
   (create_simple_pptx_succeeds e1 \<and> create_simple_pptx_succeeds e2 \<longrightarrow>
      create_simple_pptx_document e1 = create_simple_pptx_document e2 \<and>
      create_simple_pptx_document e1 = simple_document)"
proof (intro conjI impI)
  have "main_block (e\<lparr>argv := a, environ := v\<rparr>) = main_block e"
    by (rule ext) (simp add: main_block_def create_test_pptx_def)
  then show "run_create_test_pptx (e\<lparr>argv := a, environ := v\<rparr>) = run_create_test_pptx e"
    by (simp add: run_create_test_pptx_def at_main_eq start_def)
  show "run_create_simple_pptx (e\<lparr>argv := a, environ := v\<rparr>) = run_create_simple_pptx e"
    by (simp add: run_create_simple_pptx_def start_def)
next
  assume same: "pptx_installed e1 = pptx_installed e2 \<and> fault e1 = fault e2"
  have "locals ((start e1)\<lparr>stdout_encoding := ''utf-8''\<rparr>) =
        locals ((start e2)\<lparr>stdout_encoding := ''utf-8''\<rparr>)"
    by (simp add: start_def)
  from exec_locals [OF this, of True "fault e2" create_test_pptx_body] same
  show "create_test_pptx_document e1 = create_test_pptx_document e2"
    by (simp add: test_document_locals)
  have "locals (start e1) = locals (start e2)"
    by (simp add: start_def)
  from exec_locals [OF this, of "pptx_installed e2" "fault e2" create_simple_pptx_module] same
  show "create_simple_pptx_document e1 = create_simple_pptx_document e2"
    by (simp add: simple_document_locals)
next
  assume h: "create_test_pptx_succeeds e1 \<and> create_test_pptx_succeeds e2"
  have doc: "create_test_pptx_document e' = test_document" if "create_test_pptx_succeeds e'" for e'
    using run_test_success [OF that] by (simp add: create_test_pptx_document_def test_frame_def)
  from h show "create_test_pptx_document e1 = create_test_pptx_document e2"
    by (simp add: doc)
  from h show "create_test_pptx_document e1 = test_document"
    by (simp add: doc)
next
  assume h: "create_simple_pptx_succeeds e1 \<and> create_simple_pptx_succeeds e2"
  have doc: "create_simple_pptx_document e' = simple_document" if "create_simple_pptx_succeeds e'" for e'
    using run_simple_success [OF that] by (simp add: create_simple_pptx_document_def simple_frame_def)
  from h show "create_simple_pptx_document e1 = create_simple_pptx_document e2"
    by (simp add: doc)
  from h show "create_simple_pptx_document e1 = simple_document"
    by (simp add: doc)
qed

theorem deterministic_documents_witness:
  "(pptx_installed env_plain = pptx_installed env_bare \<and> fault env_plain = fault env_bare) \<and>
   console_encoding env_plain \<noteq> console_encoding env_bare \<and>
   argv env_plain \<noteq> argv env_bare \<and> environ env_plain \<noteq> environ env_bare \<and>
   (create_test_pptx_succeeds env_plain \<and> create_test_pptx_succeeds env_bare) \<and>
   (create_simple_pptx_succeeds env_plain \<and> create_simple_pptx_succeeds env_bare) \<and>
   create_test_pptx_document env_plain = create_test_pptx_document env_bare \<and>
   create_test_pptx_document env_plain = test_document \<and>
   create_simple_pptx_document env_plain = create_simple_pptx_document env_bare \<and>
   create_simple_pptx_document env_plain = simple_document"
proof -
  have a: "pptx_installed env_plain = pptx_installed env_bare \<and> fault env_plain = fault env_bare"
    by (simp add: env_plain_def env_bare_def)
  have b: "console_encoding env_plain \<noteq> console_encoding env_bare \<and>
           argv env_plain \<noteq> argv env_bare \<and> environ env_plain \<noteq> environ env_bare"
    by (simp add: env_plain_def env_bare_def)
  from a b deterministic_documents [where ?e1.0 = env_plain and ?e2.0 = env_bare]
    plain_test_succeeds bare_test_succeeds plain_simple_succeeds bare_simple_succeeds
  show ?thesis by blast
qed

text \<open>
  C10: scripts/create-test-pptx.py replaces \<open>sys.stdout\<close> by a UTF-8 text wrapper
  before anything is printed. Whenever the imports succeed, the main block is reached
  with nothing on standard output and the wrapper in place whatever the encoding of
  the console; the run then prints at least one status line, on success or on error,
  and ends with the wrapper still in place. In every run each line on standard output
  was emitted in UTF-8; a run that stops at the imports prints nothing there.
\<close>

theorem stdout_is_utf8:
  "list_all (\<lambda>x. fst x = ''utf-8'') (stdout (snd (run_create_test_pptx e))) \<and>
   (pptx_installed e \<longrightarrow>
      at_main e = (None, (start e)\<lparr>stdout_encoding := ''utf-8''\<rparr>) \<and>
      stdout (snd (at_main e)) = [] \<and>
      stdout_encoding (snd (run_create_test_pptx e)) = ''utf-8'' \<and>
      stdout (snd (run_create_test_pptx e)) \<noteq> []) \<and>
   (create_test_pptx_succeeds e \<longrightarrow> stdout (snd (run_create_test_pptx e)) = test_report) \<and>
   (create_test_pptx_raised e = Some x \<longrightarrow>
      stdout (snd (run_create_test_pptx e)) =
        (if isinstance_ImportError x
         then [(''utf-8'', ustr ''[ERROR] Need to install python-pptx''),
               (''utf-8'', ustr ''   Run: pip install python-pptx'')]
         else [(''utf-8'', ustr ''[ERROR] Failed to create file: '' @ exc_str x)])) \<and>
   (\<not> pptx_installed e \<longrightarrow> stdout (snd (run_create_test_pptx e)) = [])"
proof -
  let ?s = "(start e)\<lparr>stdout_encoding := ''utf-8''\<rparr>"
  have raised_out: "stdout (snd (run_create_test_pptx e)) =
        (if isinstance_ImportError y
         then [(''utf-8'', ustr ''[ERROR] Need to install python-pptx''),
               (''utf-8'', ustr ''   Run: pip install python-pptx'')]
         else [(''utf-8'', ustr ''[ERROR] Failed to create file: '' @ exc_str y)])"
    if "create_test_pptx_raised e = Some y" for y
    using run_test_raised [OF that] by simp
  have raised_enc: "stdout_encoding (snd (run_create_test_pptx e)) = ''utf-8''"
    if r: "create_test_pptx_raised e = Some y" for y
  proof -
    from r have inst: "pptx_installed e"
      by (auto simp: create_test_pptx_raised_def at_main_eq split: if_splits)
    with r have call: "create_test_pptx e ?s = (Inl y, snd (create_test_pptx e ?s))"
      by (auto simp: create_test_pptx_raised_def at_main_eq split: prod.splits sum.splits)
    have "stdout_encoding (snd (create_test_pptx e ?s)) = ''utf-8''"
      using create_test_pptx_raises [OF call] by simp
    then show ?thesis
      using run_test_raised [OF r] by simp
  qed
  have tagged: "list_all (\<lambda>x. fst x = ''utf-8'') (stdout (snd (run_create_test_pptx e)))"
  proof -
    consider "\<not> pptx_installed e" | "create_test_pptx_succeeds e"
      | y where "create_test_pptx_raised e = Some y"
      using test_outcomes [of e] by blast
    then show ?thesis
    proof cases
      case 1
      then show ?thesis
        by (simp add: run_test_missing start_def)
    next
      case 2
      then show ?thesis
        using run_test_success [OF 2] by (simp add: test_report_def)
    next
      case 3
      then show ?thesis
        by (simp add: raised_out)
    qed
  qed
  have installed: "at_main e = (None, ?s) \<and> stdout (snd (at_main e)) = [] \<and>
      stdout_encoding (snd (run_create_test_pptx e)) = ''utf-8'' \<and>
      stdout (snd (run_create_test_pptx e)) \<noteq> []" if inst: "pptx_installed e"
  proof -
    have main: "at_main e = (None, ?s)" and empty: "stdout (snd (at_main e)) = []"
      using inst by (simp_all add: at_main_eq start_def)
    consider "create_test_pptx_succeeds e" | y where "create_test_pptx_raised e = Some y"
      using test_outcomes [of e] inst by blast
    then have "stdout_encoding (snd (run_create_test_pptx e)) = ''utf-8'' \<and>
               stdout (snd (run_create_test_pptx e)) \<noteq> []"
    proof cases
      case 1
      then show ?thesis
        using run_test_success [OF 1] by (simp add: test_report_def)
    next
      case 2
      then show ?thesis
        by (simp add: raised_out raised_enc)
    qed
    with main empty show ?thesis by simp
  qed
  have success: "stdout (snd (run_create_test_pptx e)) = test_report"
    if "create_test_pptx_succeeds e"
    using run_test_success [OF that] by simp
  have missing: "stdout (snd (run_create_test_pptx e)) = []" if "\<not> pptx_installed e"
    using that by (simp add: run_test_missing start_def)
  from tagged installed success raised_out [of x] missing show ?thesis
    by blast
qed

theorem stdout_is_utf8_witness:
  "(console_encoding env_plain = ''cp936'' \<and> pptx_installed env_plain \<and>
      create_test_pptx_succeeds env_plain \<and>
      stdout (snd (at_main env_plain)) = [] \<and>
      stdout_encoding (snd (at_main env_plain)) = ''utf-8'' \<and>
      stdout_encoding (snd (run_create_test_pptx env_plain)) = ''utf-8'' \<and>
      stdout (snd (run_create_test_pptx env_plain)) = test_report \<and>
      stdout (snd (run_create_test_pptx env_plain)) \<noteq> [] \<and>
      list_all (\<lambda>x. fst x = ''utf-8'') (stdout (snd (run_create_test_pptx env_plain)))) \<and>
   (console_encoding env_save_fails = ''cp936'' \<and> pptx_installed env_save_fails \<and>
      create_test_pptx_raised env_save_fails = Some permission_denied \<and>
      stdout_encoding (snd (run_create_test_pptx env_save_fails)) = ''utf-8'' \<and>
      stdout (snd (run_create_test_pptx env_save_fails)) =
        [(''utf-8'', ustr ''[ERROR] Failed to create file: '' @ exc_str permission_denied)] \<and>
      list_all (\<lambda>x. fst x = ''utf-8'') (stdout (snd (run_create_test_pptx env_save_fails)))) \<and>
   (\<not> pptx_installed env_without_pptx \<and>
      stdout (snd (run_create_test_pptx env_without_pptx)) = [])"
proof -
  have a: "console_encoding env_plain = ''cp936'' \<and> pptx_installed env_plain \<and>
           console_encoding env_save_fails = ''cp936'' \<and> pptx_installed env_save_fails \<and>
           \<not> pptx_installed env_without_pptx"
    by (simp add: env_plain_def env_save_fails_def env_without_pptx_def)
  have b: "\<not> isinstance_ImportError permission_denied"
    by (simp add: permission_denied_def)
  have c: "stdout_encoding (snd (at_main env_plain)) = ''utf-8''"
    using stdout_is_utf8 [of env_plain permission_denied] a by simp
  have d: "stdout (snd (run_create_test_pptx env_save_fails)) =
        [(''utf-8'', ustr ''[ERROR] Failed to create file: '' @ exc_str permission_denied)]"
    using stdout_is_utf8 [of env_save_fails permission_denied] b save_fails_test_raised by simp
  from a c d plain_test_succeeds save_fails_test_raised
    stdout_is_utf8 [of env_plain permission_denied]
    stdout_is_utf8 [of env_save_fails permission_denied]
    stdout_is_utf8 [of env_without_pptx permission_denied]
  show ?thesis by blast
qed

end
